theory Spec2Isabelle
  imports Main "HOL-Library.AList"
begin

section \<open>The entity tree of xml.c\<close>

text \<open>
  An \<open>entity_t\<close> points to a struct holding the element's name, its text, the list of
  its child entities (a \<open>GSList\<close>, \<open>NULL\<close> when empty) and its attributes (a
  \<open>GHashTable\<close> from names to values, \<open>NULL\<close> until the first attribute is added).
  The hash table is an association list with one entry for each key; a \<open>NULL\<close>
  table is \<open>None\<close>, so a missing table differs from an empty one, as in the code.
  A possibly \<open>NULL\<close> C string is a \<open>string option\<close>.
\<close>

datatype entity =
  Entity (entity_name: string) (entity_text: string)
         (attributes: "(string \<times> string) list option") (entities: "entity list")

definition make_entity :: "string option \<Rightarrow> string option \<Rightarrow> entity" where
  "make_entity name txt =
     Entity (case name of None \<Rightarrow> [] | Some n \<Rightarrow> n)
            (case txt of None \<Rightarrow> [] | Some t \<Rightarrow> t) None []"

text \<open>\<open>g_hash_table_insert\<close> replaces the value of a key that is already there.\<close>

definition g_hash_table_insert ::
  "(string \<times> string) list \<Rightarrow> string \<Rightarrow> string \<Rightarrow> (string \<times> string) list" where
  "g_hash_table_insert table k v = AList.update k v table"

definition g_hash_table_lookup :: "(string \<times> string) list \<Rightarrow> string \<Rightarrow> string option" where
  "g_hash_table_lookup table k = map_of table k"

text \<open>\<open>g_hash_table_find\<close> returns the value of an entry the predicate accepts, or \<open>NULL\<close>.\<close>

definition g_hash_table_find ::
  "(string \<times> string) list \<Rightarrow> (string \<Rightarrow> string \<Rightarrow> bool) \<Rightarrow> string option" where
  "g_hash_table_find table predicate =
     (case List.find (\<lambda>(k, v). predicate k v) table of
        None \<Rightarrow> None
      | Some (k, v) \<Rightarrow> Some v)"

definition add_attribute :: "entity \<Rightarrow> string \<Rightarrow> string \<Rightarrow> entity" where
  "add_attribute entity name val =
     (case entity of Entity n t a es \<Rightarrow>
        Entity n t
          (Some (g_hash_table_insert (case a of None \<Rightarrow> [] | Some table \<Rightarrow> table) name val))
          es)"

text \<open>
  \<open>entity_child\<close>: \<open>g_slist_find_custom\<close> with \<open>strcmp\<close> on the names returns the first
  direct child of that name.
\<close>

definition entity_child :: "entity \<Rightarrow> string \<Rightarrow> entity option" where
  "entity_child entity name = List.find (\<lambda>child. entity_name child = name) (entities entity)"

definition entity_attribute :: "entity \<Rightarrow> string \<Rightarrow> string option" where
  "entity_attribute entity name =
     (case attributes entity of
        None \<Rightarrow> None
      | Some table \<Rightarrow> g_hash_table_lookup table name)"

subsection \<open>compare_entities\<close>

text \<open>\<open>compare_find_attribute\<close> is \<open>FALSE\<close> when the pair is found in the other table.\<close>

definition compare_find_attribute :: "(string \<times> string) list \<Rightarrow> string \<Rightarrow> string \<Rightarrow> bool" where
  "compare_find_attribute attributes2 key val =
     (case g_hash_table_lookup attributes2 key of
        None \<Rightarrow> True
      | Some value2 \<Rightarrow> if val = value2 then False else True)"

text \<open>
  The result is 0 for equal and 1 otherwise. The second function is the \<open>while\<close> loop
  over the two child lists, with the test \<open>list1 == list2\<close> after it (both are
  \<open>NULL\<close> exactly when both lists ended together).
\<close>

fun compare_entities :: "entity option \<Rightarrow> entity option \<Rightarrow> int"
  and compare_entities_loop :: "entity list \<Rightarrow> entity list \<Rightarrow> int" where
  "compare_entities None entity2 = (if entity2 = None then 0 else 1)"
| "compare_entities (Some entity1) None = 1"
| "compare_entities (Some (Entity name1 text1 attributes1 entities1))
                    (Some (Entity name2 text2 attributes2 entities2)) =
     (case attributes1 of
        None \<Rightarrow> (if attributes2 = None then 0 else 1)
      | Some table1 \<Rightarrow>
          (case attributes2 of
             None \<Rightarrow> 1
           | Some table2 \<Rightarrow>
               if name1 \<noteq> name2 then 1
               else if text1 \<noteq> text2 then 1
               else if g_hash_table_find table1 (compare_find_attribute table2) \<noteq> None then 1
               else compare_entities_loop entities1 entities2))"
| "compare_entities_loop (e1 # list1) (e2 # list2) =
     (if compare_entities (Some e1) (Some e2) \<noteq> 0 then 1
      else compare_entities_loop list1 list2)"
| "compare_entities_loop [] [] = 0"
| "compare_entities_loop [] (e2 # list2) = 1"
| "compare_entities_loop (e1 # list1) [] = 1"

section \<open>The C library as omp.c uses it\<close>



text \<open>
  The \<open>%i\<close> conversion of \<open>printf\<close>: the decimal digits, most significant first,
  after a minus sign for a negative number.
\<close>

definition digit_char :: "nat \<Rightarrow> char" where
  "digit_char d = ''0123456789'' ! d"

function printf_digits :: "nat \<Rightarrow> string \<Rightarrow> string" where
  "printf_digits n acc =
     (if n < 10 then digit_char n # acc
      else printf_digits (n div 10) (digit_char (n mod 10) # acc))"
  by pat_completeness auto
termination
  by (relation "measure fst") auto

declare printf_digits.simps [simp del]

definition printf_i :: "int \<Rightarrow> string" where
  "printf_i i = (if i < 0 then CHR ''-'' # printf_digits (nat (- i)) [] else printf_digits (nat i) [])"

text \<open>
  \<open>strtol (s, NULL, 10)\<close> with a 64-bit \<open>long\<close>: white space, an optional sign, then
  decimal digits (none gives 0). The second component says that the value was out of
  range, in which case \<open>strtol\<close> clamps it and sets \<open>errno\<close> to \<open>ERANGE\<close>; otherwise it
  leaves \<open>errno\<close> as it was. \<open>int_of_long\<close> is the cast to a 32-bit \<open>int\<close>.
\<close>

definition isspace :: "char \<Rightarrow> bool" where
  "isspace c = (of_char c \<in> {32, 9, 10, 11, 12, 13 :: nat})"

definition digit_val :: "char \<Rightarrow> int option" where
  "digit_val c = map_of (zip ''0123456789'' [0, 1, 2, 3, 4, 5, 6, 7, 8, 9]) c"

definition LONG_MAX :: int where "LONG_MAX = 2 ^ 63 - 1"
definition LONG_MIN :: int where "LONG_MIN = - (2 ^ 63)"
definition ERANGE :: int where "ERANGE = 34"

definition strtol :: "string \<Rightarrow> int \<times> bool" where
  "strtol s =
     (let s1 = dropWhile isspace s;
          negative = (s1 \<noteq> [] \<and> hd s1 = CHR ''-'');
          s2 = (if s1 \<noteq> [] \<and> (hd s1 = CHR ''-'' \<or> hd s1 = CHR ''+'') then tl s1 else s1);
          digits = takeWhile (\<lambda>c. digit_val c \<noteq> None) s2;
          magnitude = foldl (\<lambda>acc c. 10 * acc + the (digit_val c)) 0 digits;
          v = (if negative then - magnitude else magnitude)
      in if LONG_MAX < v then (LONG_MAX, True)
         else if v < LONG_MIN then (LONG_MIN, True)
         else (v, False))"

definition int_of_long :: "int \<Rightarrow> int" where
  "int_of_long v = (v + 2 ^ 31) mod 2 ^ 32 - 2 ^ 31"

section \<open>The session as omp.c sees it\<close>

text \<open>
  Modelled from the spec: the transport (\<open>openvas_server_send\<close>, \<open>openvas_server_sendf\<close>
  and the GNUTLS session behind \<open>read_entity\<close>) is outside the sources; the spec gives
  it as two primitives, send and receive. Here the session is a script: the values the
  successive sends return, and the outcomes of the successive calls of \<open>read_entity\<close>
  (its error, or the entity tree it stores; the reader itself is modelled further
  down). The session also records what the client did: the requests handed to the send
  primitive, the entities given to \<open>free_entity\<close>, and the seconds slept. \<open>errno\<close>
  is the C variable of that name. A call on an exhausted script has no result
  (\<open>None\<close>): the client would block.
\<close>

datatype read_error = Read_error | Parse_error | End_of_file

record session =
  send_rets :: "int list"
  read_rets :: "(read_error + entity) list"
  errno :: int
  sent :: "string list"
  freed :: "entity list"
  slept :: nat

definition openvas_server_send :: "session \<Rightarrow> string \<Rightarrow> (int \<times> session) option" where
  "openvas_server_send session msg =
     (case send_rets session of
        [] \<Rightarrow> None
      | ret # rest \<Rightarrow> Some (ret, session\<lparr>send_rets := rest, sent := sent session @ [msg]\<rparr>))"

definition session_read_entity :: "session \<Rightarrow> ((read_error + entity) \<times> session) option" where
  "session_read_entity session =
     (case read_rets session of
        [] \<Rightarrow> None
      | r # rest \<Rightarrow> Some (r, session\<lparr>read_rets := rest\<rparr>))"

definition free_entity :: "session \<Rightarrow> entity \<Rightarrow> session" where
  "free_entity session entity = session\<lparr>freed := freed session @ [entity]\<rparr>"


section \<open>omp.c: the operations that send a request and check the response\<close>

text \<open>
  Each function returns its \<open>int\<close> result and the session after the call. The
  argument \<open>ident\<close> is the C parameter \<open>id\<close>.
\<close>

definition start_task :: "session \<Rightarrow> string \<Rightarrow> (int \<times> session) option" where
  \<open>start_task session ident =
     (case openvas_server_send session (''<start_task task_id="'' @ ident @ ''"/>'') of
        None \<Rightarrow> None
      | Some (ret, s1) \<Rightarrow>
          if ret = - 1 then Some (- 1, s1)
          else (case session_read_entity s1 of
                  None \<Rightarrow> None
                | Some (Inl err, s2) \<Rightarrow> Some (- 1, s2)
                | Some (Inr entity, s2) \<Rightarrow>
                    (case entity_attribute entity ''status'' of
                       None \<Rightarrow> Some (- 1, free_entity s2 entity)
                     | Some status \<Rightarrow>
                         if length status = 0 then Some (- 1, free_entity s2 entity)
                         else if hd status = CHR ''2'' then Some (0, free_entity s2 entity)
                         else Some (- 1, free_entity s2 entity))))\<close>

definition delete_task :: "session \<Rightarrow> string \<Rightarrow> (int \<times> session) option" where
  \<open>delete_task session ident =
     (case openvas_server_send session (''<delete_task task_id="'' @ ident @ ''"/>'') of
        None \<Rightarrow> None
      | Some (ret, s1) \<Rightarrow>
          if ret = - 1 then Some (- 1, s1)
          else (case session_read_entity s1 of
                  None \<Rightarrow> None
                | Some (Inl err, s2) \<Rightarrow> Some (- 1, s2)
                | Some (Inr entity, s2) \<Rightarrow>
                    (case entity_attribute entity ''status'' of
                       None \<Rightarrow> Some (- 1, free_entity s2 entity)
                     | Some status \<Rightarrow>
                         if length status = 0 then Some (- 1, free_entity s2 entity)
                         else if hd status = CHR ''2'' then Some (0, free_entity s2 entity)
                         else Some (- 1, free_entity s2 entity))))\<close>

text \<open>
  \<open>omp_delete_task\<close> and \<open>omp_delete_report\<close> free the response and return 0; where
  the status would be checked the source has the comment \<open>// FIX check status\<close>.
\<close>

definition omp_delete_task :: "session \<Rightarrow> string \<Rightarrow> (int \<times> session) option" where
  \<open>omp_delete_task session ident =
     (case openvas_server_send session (''<delete_task task_id="'' @ ident @ ''"/>'') of
        None \<Rightarrow> None
      | Some (ret, s1) \<Rightarrow>
          if ret \<noteq> 0 then Some (- 1, s1)
          else (case session_read_entity s1 of
                  None \<Rightarrow> None
                | Some (Inl err, s2) \<Rightarrow> Some (- 1, s2)
                | Some (Inr response, s2) \<Rightarrow> Some (0, free_entity s2 response)))\<close>

definition omp_delete_report :: "session \<Rightarrow> string \<Rightarrow> (int \<times> session) option" where
  \<open>omp_delete_report session ident =
     (case openvas_server_send session (''<delete_report report_id="'' @ ident @ ''"/>'') of
        None \<Rightarrow> None
      | Some (ret, s1) \<Rightarrow>
          if ret \<noteq> 0 then Some (- 1, s1)
          else (case session_read_entity s1 of
                  None \<Rightarrow> None
                | Some (Inl err, s2) \<Rightarrow> Some (- 1, s2)
                | Some (Inr response, s2) \<Rightarrow> Some (0, free_entity s2 response)))\<close>

text \<open>The comment of \<open>omp_create_target\<close> may be \<open>NULL\<close>; it is then left out.\<close>

definition omp_create_target ::
  "session \<Rightarrow> string \<Rightarrow> string \<Rightarrow> string option \<Rightarrow> (int \<times> session) option" where
  "omp_create_target session name hosts comment =
     (let new_task_request =
            (case comment of
               Some c \<Rightarrow>
                 ''<create_target>'' @ ''<name>'' @ name @ ''</name>''
                   @ ''<hosts>'' @ hosts @ ''</hosts>''
                   @ ''<comment>'' @ c @ ''</comment>'' @ ''</create_target>''
             | None \<Rightarrow>
                 ''<create_target>'' @ ''<name>'' @ name @ ''</name>''
                   @ ''<hosts>'' @ hosts @ ''</hosts>'' @ ''</create_target>'')
      in case openvas_server_send session new_task_request of
           None \<Rightarrow> None
         | Some (ret, s1) \<Rightarrow>
             if ret \<noteq> 0 then Some (- 1, s1)
             else (case session_read_entity s1 of
                     None \<Rightarrow> None
                   | Some (Inl err, s2) \<Rightarrow> Some (- 1, s2)
                   | Some (Inr entity, s2) \<Rightarrow>
                       (case entity_attribute entity ''status'' of
                          None \<Rightarrow> Some (- 1, free_entity s2 entity)
                        | Some status \<Rightarrow>
                            if length status = 0 then Some (- 1, free_entity s2 entity)
                            else if hd status = CHR ''2'' then Some (0, free_entity s2 entity)
                            else Some (- 1, free_entity s2 entity))))"

definition omp_delete_target :: "session \<Rightarrow> string \<Rightarrow> (int \<times> session) option" where
  "omp_delete_target session name =
     (case openvas_server_send session
             (''<delete_target>'' @ ''<name>'' @ name @ ''</name>'' @ ''</delete_target>'') of
        None \<Rightarrow> None
      | Some (ret, s1) \<Rightarrow>
          if ret \<noteq> 0 then Some (- 1, s1)
          else (case session_read_entity s1 of
                  None \<Rightarrow> None
                | Some (Inl err, s2) \<Rightarrow> Some (- 1, s2)
                | Some (Inr entity, s2) \<Rightarrow>
                    (case entity_attribute entity ''status'' of
                       None \<Rightarrow> Some (- 1, free_entity s2 entity)
                     | Some status \<Rightarrow>
                         if length status = 0 then Some (- 1, free_entity s2 entity)
                         else if hd status = CHR ''2'' then Some (0, free_entity s2 entity)
                         else Some (- 1, free_entity s2 entity))))"

definition omp_delete_config :: "session \<Rightarrow> string \<Rightarrow> (int \<times> session) option" where
  "omp_delete_config session name =
     (case openvas_server_send session
             (''<delete_config>'' @ ''<name>'' @ name @ ''</name>'' @ ''</delete_config>'') of
        None \<Rightarrow> None
      | Some (ret, s1) \<Rightarrow>
          if ret \<noteq> 0 then Some (- 1, s1)
          else (case session_read_entity s1 of
                  None \<Rightarrow> None
                | Some (Inl err, s2) \<Rightarrow> Some (- 1, s2)
                | Some (Inr entity, s2) \<Rightarrow>
                    (case entity_attribute entity ''status'' of
                       None \<Rightarrow> Some (- 1, free_entity s2 entity)
                     | Some status \<Rightarrow>
                         if length status = 0 then Some (- 1, free_entity s2 entity)
                         else if hd status = CHR ''2'' then Some (0, free_entity s2 entity)
                         else Some (- 1, free_entity s2 entity))))"

section \<open>omp.c: creating a task or a config from a payload\<close>

text \<open>
  The payload \<open>config\<close> is a pointer to bytes with a separate length \<open>config_len\<close>.
  The model gives the bytes of the object from the pointer on, NUL bytes included.
  \<open>strlen\<close> counts the bytes before the first NUL, and \<open>g_base64_encode\<close> reads
  \<open>config_len\<close> bytes; a read beyond the object has no defined result (\<open>None\<close>).
  The encoder itself belongs to GLib and is a parameter of the model, named as in the
  source. The out-parameter \<open>id\<close> is \<open>Written\<close> with the new string where the code
  assigns \<open>*id\<close>.
\<close>

datatype 'a out_param = Not_written | Written 'a

definition c_strlen :: "char list \<Rightarrow> nat option" where
  "c_strlen buf =
     (if CHR 0x00 \<in> set buf then Some (length (takeWhile (\<lambda>c. c \<noteq> CHR 0x00) buf))
      else None)"

definition read_bytes :: "char list \<Rightarrow> nat \<Rightarrow> char list option" where
  "read_bytes buf n = (if n \<le> length buf then Some (take n buf) else None)"

text \<open>
  The conditional expression at the head of \<open>create_task\<close> and of
  \<open>omp_create_config\<close>:
  \<open>strlen (config) ? g_base64_encode ((guchar*) config, config_len) : g_strdup ("")\<close>.
\<close>

definition encode_config :: "(char list \<Rightarrow> string) \<Rightarrow> char list \<Rightarrow> nat \<Rightarrow> string option" where
  "encode_config g_base64_encode config config_len =
     (case c_strlen config of
        None \<Rightarrow> None
      | Some n \<Rightarrow>
          if n \<noteq> 0 then map_option g_base64_encode (read_bytes config config_len)
          else Some '''')"

definition create_task ::
  "(char list \<Rightarrow> string) \<Rightarrow> session \<Rightarrow> char list \<Rightarrow> nat \<Rightarrow> string \<Rightarrow> string
     \<Rightarrow> (int \<times> string out_param \<times> session) option" where
  "create_task g_base64_encode session config config_len name comment =
     (case encode_config g_base64_encode config config_len of
        None \<Rightarrow> None
      | Some new_task_file \<Rightarrow>
          (case openvas_server_send session
                  (''<create_task>'' @ ''<rcfile>'' @ new_task_file @ ''</rcfile>''
                     @ ''<name>'' @ name @ ''</name>''
                     @ ''<comment>'' @ comment @ ''</comment>'' @ ''</create_task>'') of
             None \<Rightarrow> None
           | Some (ret, s1) \<Rightarrow>
               if ret \<noteq> 0 then Some (- 1, Not_written, s1)
               else (case session_read_entity s1 of
                       None \<Rightarrow> None
                     | Some (Inl err, s2) \<Rightarrow> Some (- 1, Not_written, s2)
                     | Some (Inr entity, s2) \<Rightarrow>
                         (case entity_child entity ''task_id'' of
                            None \<Rightarrow> Some (- 1, Not_written, free_entity s2 entity)
                          | Some id_entity \<Rightarrow> Some (0, Written (entity_text id_entity), s2)))))"

definition omp_create_task ::
  "session \<Rightarrow> string \<Rightarrow> string \<Rightarrow> string \<Rightarrow> string
     \<Rightarrow> (int \<times> string out_param \<times> session) option" where
  "omp_create_task session name config target comment =
     (case openvas_server_send session
             (''<create_task>'' @ ''<config>'' @ config @ ''</config>''
                @ ''<target>'' @ target @ ''</target>''
                @ ''<name>'' @ name @ ''</name>''
                @ ''<comment>'' @ comment @ ''</comment>'' @ ''</create_task>'') of
        None \<Rightarrow> None
      | Some (ret, s1) \<Rightarrow>
          if ret \<noteq> 0 then Some (- 1, Not_written, s1)
          else (case session_read_entity s1 of
                  None \<Rightarrow> None
                | Some (Inl err, s2) \<Rightarrow> Some (- 1, Not_written, s2)
                | Some (Inr entity, s2) \<Rightarrow>
                    (case entity_child entity ''task_id'' of
                       None \<Rightarrow> Some (- 1, Not_written, free_entity s2 entity)
                     | Some id_entity \<Rightarrow> Some (0, Written (entity_text id_entity), s2))))"

definition omp_create_config ::
  "(char list \<Rightarrow> string) \<Rightarrow> session \<Rightarrow> string \<Rightarrow> string option \<Rightarrow> char list \<Rightarrow> nat
     \<Rightarrow> (int \<times> session) option" where
  "omp_create_config g_base64_encode session name comment config config_len =
     (case encode_config g_base64_encode config config_len of
        None \<Rightarrow> None
      | Some new_config_file \<Rightarrow>
          (let new_config_request =
                 (case comment of
                    Some c \<Rightarrow>
                      ''<create_config>'' @ ''<name>'' @ name @ ''</name>''
                        @ ''<comment>'' @ c @ ''</comment>''
                        @ ''<rcfile>'' @ new_config_file @ ''</rcfile>'' @ ''</create_config>''
                  | None \<Rightarrow>
                      ''<create_config>'' @ ''<name>'' @ name @ ''</name>''
                        @ ''<rcfile>'' @ new_config_file @ ''</rcfile>'' @ ''</create_config>'')
           in case openvas_server_send session new_config_request of
                None \<Rightarrow> None
              | Some (ret, s1) \<Rightarrow>
                  if ret \<noteq> 0 then Some (- 1, s1)
                  else (case session_read_entity s1 of
                          None \<Rightarrow> None
                        | Some (Inl err, s2) \<Rightarrow> Some (- 1, s2)
                        | Some (Inr entity, s2) \<Rightarrow>
                            (case entity_attribute entity ''status'' of
                               None \<Rightarrow> Some (- 1, free_entity s2 entity)
                             | Some status \<Rightarrow>
                                 if length status = 0 then Some (- 1, free_entity s2 entity)
                                 else if hd status = CHR ''2'' then Some (0, free_entity s2 entity)
                                 else Some (- 1, free_entity s2 entity)))))"

text \<open>
  \<open>omp_modify_task\<close> sends the request in pieces; \<open>rcfile\<close>, \<open>name\<close> and \<open>comment\<close>
  may each be \<open>NULL\<close>, and a piece is sent only for an argument that is given.
  \<open>send_part\<close> is that pattern, \<open>if (x && openvas_server_sendf (...)) return -1\<close>: with
  nothing to send the result is 0. The RC file is a C string here, encoded over its
  \<open>strlen\<close>. After the response is read the source has \<open>// FIX check status\<close> again.
\<close>

definition send_part :: "session \<Rightarrow> string option \<Rightarrow> (int \<times> session) option" where
  "send_part session part =
     (case part of
        None \<Rightarrow> Some (0, session)
      | Some msg \<Rightarrow> openvas_server_send session msg)"

definition omp_modify_task ::
  "(char list \<Rightarrow> string) \<Rightarrow> session \<Rightarrow> string \<Rightarrow> string option \<Rightarrow> string option
     \<Rightarrow> string option \<Rightarrow> (int \<times> session) option" where
  \<open>omp_modify_task g_base64_encode session ident rcfile name comment =
     (case openvas_server_send session (''<modify_task task_id="'' @ ident @ ''">'') of
        None \<Rightarrow> None
      | Some (ret, s1) \<Rightarrow>
          if ret \<noteq> 0 then Some (- 1, s1)
          else
      (case send_part s1
              (map_option
                 (\<lambda>rc. if length rc = 0 then ''<rcfile></rcfile>''
                       else ''<rcfile>'' @ g_base64_encode rc @ ''</rcfile>'')
                 rcfile) of
         None \<Rightarrow> None
       | Some (ret, s2) \<Rightarrow>
           if ret \<noteq> 0 then Some (- 1, s2)
           else
      (case send_part s2 (map_option (\<lambda>n. ''<name>'' @ n @ ''</name>'') name) of
         None \<Rightarrow> None
       | Some (ret, s3) \<Rightarrow>
           if ret \<noteq> 0 then Some (- 1, s3)
           else
      (case send_part s3 (map_option (\<lambda>c. ''<comment>'' @ c @ ''</comment>'') comment) of
         None \<Rightarrow> None
       | Some (ret, s4) \<Rightarrow>
           if ret \<noteq> 0 then Some (- 1, s4)
           else
      (case openvas_server_send s4 ''</modify_task>'' of
         None \<Rightarrow> None
       | Some (ret, s5) \<Rightarrow>
           if ret \<noteq> 0 then Some (- 1, s5)
           else
      (case session_read_entity s5 of
         None \<Rightarrow> None
       | Some (Inl err, s6) \<Rightarrow> Some (- 1, s6)
       | Some (Inr response, s6) \<Rightarrow> Some (0, free_entity s6 response)))))))\<close>

section \<open>omp.c: the operations that hand the response to the caller\<close>

text \<open>
  The out-parameter (\<open>status\<close> or \<open>response\<close>) is \<open>Written None\<close> after the
  assignment of \<open>NULL\<close> and \<open>Written (Some e)\<close> once \<open>read_entity\<close> has stored the
  response. Where the code frees the response the out-parameter still holds it, and
  the session lists it as freed. After \<open>strtol\<close> the code tests \<open>errno\<close> without
  having cleared it before.
\<close>

definition omp_get_status ::
  "session \<Rightarrow> string option \<Rightarrow> int \<Rightarrow> (int \<times> entity option out_param \<times> session) option" where
  \<open>omp_get_status session ident include_rcfile =
     (case openvas_server_send session
             (case ident of
                None \<Rightarrow> ''<get_status rcfile="'' @ printf_i include_rcfile @ ''"/>''
              | Some i \<Rightarrow>
                  ''<get_status task_id="'' @ i @ ''" rcfile="''
                    @ printf_i include_rcfile @ ''"/>'') of
        None \<Rightarrow> None
      | Some (ret, s1) \<Rightarrow>
          if ret = - 1 then Some (- 1, Not_written, s1)
          else (case session_read_entity s1 of
                  None \<Rightarrow> None
                | Some (Inl err, s2) \<Rightarrow> Some (- 1, Written None, s2)
                | Some (Inr status, s2) \<Rightarrow>
                    (case entity_attribute status ''status'' of
                       None \<Rightarrow> Some (- 1, Written (Some status), free_entity s2 status)
                     | Some status_code \<Rightarrow>
                         if length status_code = 0
                         then Some (- 1, Written (Some status), free_entity s2 status)
                         else if hd status_code = CHR ''2'' then Some (0, Written (Some status), s2)
                         else (let (v, out_of_range) = strtol status_code;
                                   ret = int_of_long v;
                                   s3 = (if out_of_range then s2\<lparr>errno := ERANGE\<rparr> else s2);
                                   s4 = free_entity s3 status
                               in if errno s4 = ERANGE then Some (- 1, Written (Some status), s4)
                                  else Some (ret, Written (Some status), s4)))))\<close>

definition omp_get_report ::
  "session \<Rightarrow> string \<Rightarrow> (int \<times> entity option out_param \<times> session) option" where
  \<open>omp_get_report session ident =
     (case openvas_server_send session
             (''<get_report format="nbe" report_id="'' @ ident @ ''"/>'') of
        None \<Rightarrow> None
      | Some (ret, s1) \<Rightarrow>
          if ret \<noteq> 0 then Some (- 1, Not_written, s1)
          else (case session_read_entity s1 of
                  None \<Rightarrow> None
                | Some (Inl err, s2) \<Rightarrow> Some (- 1, Written None, s2)
                | Some (Inr response, s2) \<Rightarrow> Some (0, Written (Some response), s2)))\<close>

definition omp_get_preferences ::
  "session \<Rightarrow> (int \<times> entity option out_param \<times> session) option" where
  "omp_get_preferences session =
     (case openvas_server_send session ''<get_preferences/>'' of
        None \<Rightarrow> None
      | Some (ret, s1) \<Rightarrow>
          if ret \<noteq> 0 then Some (- 1, Not_written, s1)
          else (case session_read_entity s1 of
                  None \<Rightarrow> None
                | Some (Inl err, s2) \<Rightarrow> Some (- 1, Written None, s2)
                | Some (Inr response, s2) \<Rightarrow> Some (0, Written (Some response), s2)))"

definition omp_get_certificates ::
  "session \<Rightarrow> (int \<times> entity option out_param \<times> session) option" where
  "omp_get_certificates session =
     (case openvas_server_send session ''<get_preferences/>'' of
        None \<Rightarrow> None
      | Some (ret, s1) \<Rightarrow>
          if ret \<noteq> 0 then Some (- 1, Not_written, s1)
          else (case session_read_entity s1 of
                  None \<Rightarrow> None
                | Some (Inl err, s2) \<Rightarrow> Some (- 1, Written None, s2)
                | Some (Inr response, s2) \<Rightarrow>
                    (case entity_attribute response ''status'' of
                       None \<Rightarrow> Some (- 1, Written (Some response), free_entity s2 response)
                     | Some status_code \<Rightarrow>
                         if length status_code = 0
                         then Some (- 1, Written (Some response), free_entity s2 response)
                         else if hd status_code = CHR ''2''
                         then Some (0, Written (Some response), s2)
                         else (let (v, out_of_range) = strtol status_code;
                                   ret = int_of_long v;
                                   s3 = (if out_of_range then s2\<lparr>errno := ERANGE\<rparr> else s2);
                                   s4 = free_entity s3 response
                               in if errno s4 = ERANGE then Some (- 1, Written (Some response), s4)
                                  else Some (ret, Written (Some response), s4)))))"

section \<open>omp.c: polling the status of a task\<close>













section \<open>xml.c: building the entity tree while reading\<close>

text \<open>
  The parser callbacks build the tree in place: \<open>handle_start_element\<close> appends the new
  entity to the child list of the entity on top of the stack, and later callbacks
  change that same entity through the pointer kept on the stack. So here the entities
  live in a heap, a list of structs addressed by position, and an \<open>entity_t\<close> is an
  address. \<open>make_entity\<close> allocates at the end of the heap.
\<close>

record entity_struct =
  struct_name :: string
  struct_text :: string
  struct_entities :: "nat list"
  struct_attributes :: "(string \<times> string) list option"

type_synonym heap = "entity_struct list"

definition heap_make_entity :: "heap \<Rightarrow> string option \<Rightarrow> string option \<Rightarrow> nat \<times> heap" where
  "heap_make_entity h name txt =
     (length h,
      h @ [\<lparr>struct_name = (case name of None \<Rightarrow> [] | Some n \<Rightarrow> n),
            struct_text = (case txt of None \<Rightarrow> [] | Some t \<Rightarrow> t),
            struct_entities = [], struct_attributes = None\<rparr>])"

text \<open>
  \<open>add_entity\<close>: the first argument of the C function points to the child list of some
  entity, or is \<open>NULL\<close>; here it is the address of that entity, or \<open>None\<close>.
\<close>

definition heap_add_entity ::
  "heap \<Rightarrow> nat option \<Rightarrow> string option \<Rightarrow> string option \<Rightarrow> nat \<times> heap" where
  "heap_add_entity h parent name txt =
     (let (entity, h1) = heap_make_entity h name txt
      in case parent of
           None \<Rightarrow> (entity, h1)
         | Some p \<Rightarrow>
             (entity, h1[p := (h1 ! p)\<lparr>struct_entities := struct_entities (h1 ! p) @ [entity]\<rparr>]))"

text \<open>
  \<open>add_attributes\<close>: the two \<open>NULL\<close>-terminated arrays are lists; the loop runs while
  both have an element, and the table is only created when it runs at all.
\<close>

definition heap_add_attributes :: "heap \<Rightarrow> nat \<Rightarrow> string list \<Rightarrow> string list \<Rightarrow> heap" where
  "heap_add_attributes h entity names vals =
     (if names \<noteq> [] \<and> vals \<noteq> [] then
        h[entity := (h ! entity)\<lparr>struct_attributes :=
            Some (foldl (\<lambda>table (n, v). g_hash_table_insert table n v)
                    (case struct_attributes (h ! entity) of None \<Rightarrow> [] | Some table \<Rightarrow> table)
                    (zip names vals))\<rparr>]
      else h)"

text \<open>
  \<open>context_data_t\<close> with the heap it works on. \<open>first\<close> and \<open>current\<close> are \<open>GSList\<close>s
  of entities: \<open>current\<close> is the stack of open elements, innermost first, and \<open>first\<close>
  is the list cell of the root (a one-element list once set). Every cell holds an
  entity of its own, so the pointer test \<open>data->current == data->first\<close> is the
  equality of the two lists. The field \<open>done\<close> is \<open>done_flag\<close> here.
\<close>

record context_data =
  heap :: heap
  first :: "nat list"
  current :: "nat list"
  done_flag :: bool

text \<open>What stops the process inside a callback: a failed \<open>assert\<close>, or a \<open>NULL\<close> pointer.\<close>

datatype crash = Assertion_failed | Null_dereference

definition handle_start_element ::
  "context_data \<Rightarrow> string \<Rightarrow> string list \<Rightarrow> string list \<Rightarrow> crash + context_data" where
  "handle_start_element data element_name attribute_names attribute_values =
     (let (entity, h1) =
            (case current data of
               cur # _ \<Rightarrow> heap_add_entity (heap data) (Some cur) (Some element_name) None
             | [] \<Rightarrow> heap_add_entity (heap data) None (Some element_name) None);
          h2 = heap_add_attributes h1 entity attribute_names attribute_values
      in if first data = [] then Inr (data\<lparr>heap := h2, first := [entity], current := [entity]\<rparr>)
         else Inr (data\<lparr>heap := h2, current := entity # current data\<rparr>))"

definition handle_end_element :: "context_data \<Rightarrow> string \<Rightarrow> crash + context_data" where
  "handle_end_element data element_name =
     (if current data = [] \<or> first data = [] then Inl Assertion_failed
      else if current data = first data then
        (if element_name \<noteq> struct_name (heap data ! hd (first data)) then Inl Assertion_failed
         else Inr (data\<lparr>done_flag := True, current := tl (current data)\<rparr>))
      else Inr (data\<lparr>current := tl (current data)\<rparr>))"

definition handle_text :: "context_data \<Rightarrow> string \<Rightarrow> crash + context_data" where
  "handle_text data txt =
     (case current data of
        [] \<Rightarrow> Inl Null_dereference
      | cur # _ \<Rightarrow>
          Inr (data\<lparr>heap := (heap data)
                 [cur := (heap data ! cur)\<lparr>struct_text := struct_text (heap data ! cur) @ txt\<rparr>]\<rparr>))"

text \<open>
  Modelled from the spec: the tokenizer is GLib's \<open>GMarkupParseContext\<close>, outside the
  sources. The spec has it turn the bytes of each chunk into start, end and text
  events for the three callbacks, tolerate any chunk boundary, and possibly split one
  run of text into several text events. It is a parameter: a state of some type
  \<open>'c\<close>, the state \<open>new_context\<close> that \<open>g_markup_parse_context_new\<close> returns, the function
  \<open>parse\<close> for \<open>g_markup_parse_context_parse\<close> (the events it hands to the callbacks
  for a chunk, in order, its next state, and whether it has set the error), and
  \<open>end_parse\<close> for \<open>g_markup_parse_context_end_parse\<close> (whether it sets the error).
\<close>

datatype markup_event =
  Start_element string "string list" "string list"
| End_element string
| Text string

record 'c markup_parser =
  new_context :: 'c
  parse :: "'c \<Rightarrow> string \<Rightarrow> markup_event list \<times> 'c \<times> bool"
  end_parse :: "'c \<Rightarrow> bool"

fun callback :: "context_data \<Rightarrow> markup_event \<Rightarrow> crash + context_data" where
  "callback data (Start_element element_name attribute_names attribute_values) =
     handle_start_element data element_name attribute_names attribute_values"
| "callback data (End_element element_name) = handle_end_element data element_name"
| "callback data (Text txt) = handle_text data txt"

fun callbacks :: "context_data \<Rightarrow> markup_event list \<Rightarrow> crash + context_data" where
  "callbacks data [] = Inr data"
| "callbacks data (event # events) =
     (case callback data event of
        Inl c \<Rightarrow> Inl c
      | Inr data' \<Rightarrow> callbacks data' events)"

subsection \<open>read_entity_and_text\<close>

text \<open>
  Modelled from the spec: the receive primitive is \<open>gnutls_record_recv\<close>, outside the
  sources. The transport is the list of what the successive calls return: a negative
  error code (\<open>Recv_error\<close>), or the bytes put into the buffer (\<open>Recv_bytes\<close>), whose
  number is the count returned, 0 at the end of the stream. The two codes that the
  reader retries on are those of \<open>gnutls.h\<close>. A call on an exhausted list has no
  result (\<open>None\<close>): the reader would block; and the primitive never returns more than
  the \<open>BUFFER_SIZE\<close> bytes asked for, so a longer entry has no result either.
\<close>

datatype recv = Recv_error int | Recv_bytes string

definition BUFFER_SIZE :: nat where "BUFFER_SIZE = 1048576"
definition GNUTLS_E_REHANDSHAKE :: int where "GNUTLS_E_REHANDSHAKE = - 37"
definition GNUTLS_E_INTERRUPTED :: int where "GNUTLS_E_INTERRUPTED = - 52"

text \<open>
  What a call of \<open>read_entity_and_text\<close> leaves behind: its return value, what it has
  stored in \<open>*entity\<close> and in \<open>*text\<close> (\<open>None\<close> when it has not assigned them), the
  root it has given to \<open>free_entity\<close>, whether it has called
  \<open>g_markup_parse_context_end_parse\<close>, the heap, and the part of the transport it has
  not read.
\<close>

record read_result =
  result_code :: int
  result_entity :: "nat option"
  result_text :: "string option"
  result_freed :: "nat option"
  result_end_parsed :: bool
  result_heap :: heap
  result_unread :: "recv list"

text \<open>
  The outer \<open>while (1)\<close> of \<open>read_entity_and_text\<close>, one equation for each outcome of
  the receive call. \<open>string\<close> is the \<open>GString\<close> that collects the bytes read, or
  \<open>None\<close> when the caller passed \<open>NULL\<close> for \<open>text\<close>. \<open>free_root\<close> is the repeated
  \<open>if (context_data.first && context_data.first->data) free_entity (...)\<close>.
\<close>

definition free_root :: "context_data \<Rightarrow> nat option" where
  "free_root data = (case first data of [] \<Rightarrow> None | root # _ \<Rightarrow> Some root)"

fun read_loop ::
  "'c markup_parser \<Rightarrow> 'c \<Rightarrow> context_data \<Rightarrow> string option \<Rightarrow> recv list
     \<Rightarrow> (crash + read_result) option" where
  "read_loop parser xml_context data string [] = None"
| "read_loop parser xml_context data string (Recv_error count # script) =
     (if count = GNUTLS_E_INTERRUPTED then read_loop parser xml_context data string script
      else if count = GNUTLS_E_REHANDSHAKE then read_loop parser xml_context data string script
      else Some (Inr \<lparr>result_code = - 1, result_entity = None, result_text = None,
                       result_freed = free_root data, result_end_parsed = False,
                       result_heap = heap data, result_unread = script\<rparr>))"
| "read_loop parser xml_context data string (Recv_bytes buffer # script) =
     (if BUFFER_SIZE < length buffer then None
      else if length buffer = 0 then
        Some (Inr \<lparr>result_code = - 3, result_entity = None, result_text = None,
                   result_freed = free_root data, result_end_parsed = True,
                   result_heap = heap data, result_unread = script\<rparr>)
      else
        (case parse parser xml_context buffer of
           (events, xml_context', error) \<Rightarrow>
             (case callbacks data events of
                Inl c \<Rightarrow> Some (Inl c)
              | Inr data' \<Rightarrow>
                  if error then
                    Some (Inr \<lparr>result_code = - 2, result_entity = None, result_text = None,
                               result_freed = free_root data', result_end_parsed = False,
                               result_heap = heap data', result_unread = script\<rparr>)
                  else if done_flag data' then
                    (if end_parse parser xml_context' then
                       Some (Inr \<lparr>result_code = - 2, result_entity = None, result_text = None,
                                  result_freed = free_root data', result_end_parsed = True,
                                  result_heap = heap data', result_unread = script\<rparr>)
                     else
                       (case first data' of
                          [] \<Rightarrow> Some (Inl Null_dereference)
                        | root # _ \<Rightarrow>
                            Some (Inr \<lparr>result_code = 0, result_entity = Some root,
                                       result_text = map_option (\<lambda>s. s @ buffer) string,
                                       result_freed = None, result_end_parsed = True,
                                       result_heap = heap data', result_unread = script\<rparr>)))
                  else read_loop parser xml_context' data'
                         (map_option (\<lambda>s. s @ buffer) string) script)))"

definition read_entity_and_text ::
  "'c markup_parser \<Rightarrow> bool \<Rightarrow> recv list \<Rightarrow> (crash + read_result) option" where
  "read_entity_and_text parser want_text script =
     read_loop parser (new_context parser)
       \<lparr>heap = [], first = [], current = [], done_flag = False\<rparr>
       (if want_text then Some [] else None) script"

definition read_entity :: "'c markup_parser \<Rightarrow> recv list \<Rightarrow> (crash + read_result) option" where
  "read_entity parser script = read_entity_and_text parser False script"

subsection \<open>A small tokenizer for the concrete runs\<close>

text \<open>
  Modelled from the spec: a tokenizer to run the reader on concrete documents, since
  GLib's is outside the sources. It knows elements, attributes in double quotes, empty
  elements and text, reads a byte at a time, keeps the depth of open elements, and
  drops what stands outside the outermost element. A run of text is handed to the
  text callback when a tag starts and also when the chunk ends, so text that
  straddles a chunk boundary arrives in pieces, as the spec allows.
\<close>

datatype tag_state =
  Content string
| Tag_open
| Start_name string
| Attributes string "string list" "string list"
| Attribute_name string "string list" "string list" string
| Attribute_quote string "string list" "string list" string
| Attribute_value string "string list" "string list" string string
| Empty_close string "string list" "string list"
| End_name string

definition flush_text :: "string \<Rightarrow> markup_event list" where
  "flush_text pending = (if pending = [] then [] else [Text pending])"

fun token_step :: "nat \<times> tag_state \<Rightarrow> char \<Rightarrow> (markup_event list \<times> nat \<times> tag_state) option" where
  "token_step (depth, Content pending) c =
     (if c = CHR ''<'' then Some (flush_text pending, depth, Tag_open)
      else if depth = 0 then Some ([], depth, Content [])
      else Some ([], depth, Content (pending @ [c])))"
| "token_step (depth, Tag_open) c =
     (if c = CHR ''/'' then Some ([], depth, End_name [])
      else if c = CHR ''>'' \<or> c = CHR '' '' then None
      else Some ([], depth, Start_name [c]))"
| "token_step (depth, Start_name n) c =
     (if c = CHR ''>'' then Some ([Start_element n [] []], Suc depth, Content [])
      else if c = CHR ''/'' then Some ([], depth, Empty_close n [] [])
      else if c = CHR '' '' then Some ([], depth, Attributes n [] [])
      else Some ([], depth, Start_name (n @ [c])))"
| "token_step (depth, Attributes n ns vs) c =
     (if c = CHR ''>'' then Some ([Start_element n ns vs], Suc depth, Content [])
      else if c = CHR ''/'' then Some ([], depth, Empty_close n ns vs)
      else if c = CHR '' '' then Some ([], depth, Attributes n ns vs)
      else Some ([], depth, Attribute_name n ns vs [c]))"
| "token_step (depth, Attribute_name n ns vs a) c =
     (if c = CHR ''='' then Some ([], depth, Attribute_quote n ns vs a)
      else Some ([], depth, Attribute_name n ns vs (a @ [c])))"
| "token_step (depth, Attribute_quote n ns vs a) c =
     (if c = CHR 0x22 then Some ([], depth, Attribute_value n ns vs a [])
      else None)"
| "token_step (depth, Attribute_value n ns vs a v) c =
     (if c = CHR 0x22 then Some ([], depth, Attributes n (ns @ [a]) (vs @ [v]))
      else Some ([], depth, Attribute_value n ns vs a (v @ [c])))"
| "token_step (depth, Empty_close n ns vs) c =
     (if c = CHR ''>'' then Some ([Start_element n ns vs, End_element n], depth, Content [])
      else None)"
| "token_step (depth, End_name n) c =
     (if c = CHR ''>'' then
        (case depth of 0 \<Rightarrow> None | Suc d \<Rightarrow> Some ([End_element n], d, Content []))
      else Some ([], depth, End_name (n @ [c])))"

fun token_run ::
  "nat \<times> tag_state \<Rightarrow> string \<Rightarrow> markup_event list
     \<Rightarrow> markup_event list \<times> (nat \<times> tag_state) \<times> bool" where
  "token_run (depth, state) [] events =
     (case state of
        Content pending \<Rightarrow> (events @ flush_text pending, (depth, Content []), False)
      | _ \<Rightarrow> (events, (depth, state), False))"
| "token_run (depth, state) (c # bytes) events =
     (case token_step (depth, state) c of
        None \<Rightarrow> (events, (depth, state), True)
      | Some (new_events, next) \<Rightarrow> token_run next bytes (events @ new_events))"

definition small_parser :: "(nat \<times> tag_state) markup_parser" where
  "small_parser =
     \<lparr>new_context = (0, Content []),
      parse = (\<lambda>xml_context bytes. token_run xml_context bytes []),
      end_parse = (\<lambda>xml_context. xml_context \<noteq> (0, Content []))\<rparr>"

subsection \<open>Chunks, events and valid documents\<close>

text \<open>
  What the claims about chunking speak of. \<open>feed\<close> runs the tokenizer over the chunks
  in order, as the loop of \<open>read_entity_and_text\<close> does, and gives the events of each
  chunk and the last state, or \<open>None\<close> when the tokenizer has set its error.
  \<open>join_text\<close> joins each run of consecutive text events into one and leaves out
  empty text, so two event lists with the same \<open>join_text\<close> differ only in how runs
  of text are split. \<open>well_nested\<close>, from the empty stack of open tags, says that the
  events are those of one complete element: start and end tags match, text stands
  inside an element, and the list ends where the outermost element closes.
\<close>

fun feed ::
  "'c markup_parser \<Rightarrow> 'c \<Rightarrow> string list \<Rightarrow> (markup_event list list \<times> 'c) option" where
  "feed parser xml_context [] = Some ([], xml_context)"
| "feed parser xml_context (chunk # chunks) =
     (case parse parser xml_context chunk of
        (events, xml_context', error) \<Rightarrow>
          if error then None
          else (case feed parser xml_context' chunks of
                  None \<Rightarrow> None
                | Some (more_events, last_context) \<Rightarrow> Some (events # more_events, last_context)))"

fun join_text :: "markup_event list \<Rightarrow> markup_event list" where
  "join_text [] = []"
| "join_text (Text a # events) =
     (case join_text events of
        Text b # rest \<Rightarrow> Text (a @ b) # rest
      | joined \<Rightarrow> if a = [] then joined else Text a # joined)"
| "join_text (event # events) = event # join_text events"

fun well_nested :: "string list \<Rightarrow> markup_event list \<Rightarrow> bool" where
  "well_nested open_tags [] = False"
| "well_nested open_tags (Start_element name names vals # events) =
     well_nested (name # open_tags) events"
| "well_nested open_tags (Text txt # events) = (open_tags \<noteq> [] \<and> well_nested open_tags events)"
| "well_nested open_tags (End_element name # events) =
     (case open_tags of
        [] \<Rightarrow> False
      | tag # outer \<Rightarrow>
          name = tag \<and> (if outer = [] then events = [] else well_nested outer events))"

text \<open>
  The state of the callbacks while the element is being built, with the stack of the
  tags that are open: the stack of entities is as deep as the stack of tags; before the
  first tag there is no root; afterwards \<open>first\<close> is the one cell of the root, the root
  lies at the bottom of the stack of entities and carries the name of the outermost
  tag; and \<open>done\<close> is not yet set.
\<close>

definition building :: "context_data \<Rightarrow> string list \<Rightarrow> bool" where
  "building data open_tags =
     (length (current data) = length open_tags \<and> \<not> done_flag data \<and>
      (case open_tags of
         [] \<Rightarrow> first data = []
       | tag # outer \<Rightarrow>
           (case first data of
              [root] \<Rightarrow>
                last (current data) = root \<and> root < length (heap data) \<and>
                struct_name (heap data ! root) = last open_tags
            | _ \<Rightarrow> False)))"

text \<open>
  The document of the spec's example, \<open><a x="1"><b>hi</b><c>there</c></a>\<close>, one byte to a chunk, with
  the events the small tokenizer gives for each chunk and for the whole document.
\<close>

definition example_document :: string where
  \<open>example_document = ''<a x="1"><b>hi</b><c>there</c></a>''\<close>

definition example_chunks :: "string list" where
  \<open>example_chunks =
     [''<'', ''a'', '' '', ''x'', ''='', ''"'', ''1'', ''"'', ''>'', ''<'', ''b'',
     ''>'', ''h'', ''i'', ''<'', ''/'', ''b'', ''>'', ''<'', ''c'', ''>'', ''t'', ''h'',
     ''e'', ''r'', ''e'', ''<'', ''/'', ''c'', ''>'', ''<'', ''/'', ''a'', ''>'']\<close>

definition example_chunk_events :: "markup_event list list" where
  "example_chunk_events =
     [[], [], [], [], [], [], [], [], [Start_element ''a'' [''x''] [''1'']],
        [], [], [Start_element ''b'' [] []], [Text ''h''], [Text ''i''], [], [],
        [], [End_element ''b''], [], [], [Start_element ''c'' [] []],
        [Text ''t''], [Text ''h''], [Text ''e''], [Text ''r''], [Text ''e''],
        [], [], [], [End_element ''c''], [], [], [], [End_element ''a'']]"

definition example_events :: "markup_event list" where
  "example_events =
     [Start_element ''a'' [''x''] [''1''], Start_element ''b'' [] [], Text ''hi'',
        End_element ''b'', Start_element ''c'' [] [], Text ''there'', End_element ''c'',
        End_element ''a'']"

text \<open>A fresh session with the given script, for the concrete runs below.\<close>

definition script :: "int list \<Rightarrow> (read_error + entity) list \<Rightarrow> session" where
  "script sends reads =
     \<lparr>send_rets = sends, read_rets = reads, errno = 0, sent = [], freed = [], slept = 0\<rparr>"


section \<open>Properties\<close>

text \<open>
  C3. The claim: \<open>compare_entities\<close> reports equality exactly when the two trees have
  the same name, text, attribute set and children. The code returns at the test of
  the attribute tables: two entities that both have no attribute table compare equal
  whatever their names, texts and children are, and a first entity whose attributes
  are a proper part of the second's compares equal to it. The theorem evaluates the
  code at both inputs: \<open><a>x</a>\<close> against \<open><b>y<c></c></b>\<close>, and
  \<open><a k="1"></a>\<close> against \<open><a k="1" m="2"></a>\<close>.
\<close>

theorem compare_entities_ignores_differences:
  "compare_entities (Some (make_entity (Some ''a'') (Some ''x'')))
     (Some (Entity ''b'' ''y'' None [make_entity (Some ''c'') None])) = 0
   \<and> compare_entities (Some (add_attribute (make_entity (Some ''a'') None) ''k'' ''1''))
     (Some (add_attribute (add_attribute (make_entity (Some ''a'') None) ''k'' ''1'') ''m'' ''2'')) = 0"
  by (simp add: make_entity_def add_attribute_def g_hash_table_insert_def
      g_hash_table_find_def compare_find_attribute_def g_hash_table_lookup_def)

subsection \<open>What a call leaves in the session\<close>

lemma sent_after_send:
  "openvas_server_send s msg = Some (ret, s1) \<Longrightarrow> sent s1 = sent s @ [msg]"
  by (auto simp: openvas_server_send_def split: list.splits)

lemma sent_after_read:
  "session_read_entity s1 = Some (r, s2) \<Longrightarrow> sent s2 = sent s1"
  by (auto simp: session_read_entity_def split: list.splits)

lemma sent_free_entity: "sent (free_entity s e) = sent s"
  by (simp add: free_entity_def)

lemma sent_omp_get_preferences:
  "omp_get_preferences s = Some (r, out, s') \<Longrightarrow> sent s' = sent s @ [''<get_preferences/>'']"
  by (auto simp: omp_get_preferences_def sent_free_entity
      split: option.splits if_splits sum.splits prod.splits
      dest!: sent_after_send sent_after_read)

lemma sent_omp_get_certificates:
  "omp_get_certificates s = Some (r, out, s') \<Longrightarrow> sent s' = sent s @ [''<get_preferences/>'']"
  by (auto simp: omp_get_certificates_def sent_free_entity Let_def
      split: option.splits if_splits sum.splits prod.splits
      dest!: sent_after_send sent_after_read)

lemma encode_config_nul: "encode_config g (CHR 0x00 # rest) config_len = Some ''''"
  by (simp add: encode_config_def c_strlen_def)

lemma encode_config_nonempty:
  "c_strlen config = Some n \<Longrightarrow> n \<noteq> 0 \<Longrightarrow>
     encode_config g config config_len = map_option g (read_bytes config config_len)"
  by (simp add: encode_config_def)

lemma create_task_sent:
  "create_task g s config config_len name comment = Some (r, out, s') \<Longrightarrow>
   encode_config g config config_len = Some f \<Longrightarrow>
   sent s' = sent s @ [''<create_task><rcfile>'' @ f @ ''</rcfile><name>'' @ name
      @ ''</name><comment>'' @ comment @ ''</comment></create_task>'']"
  by (auto simp: create_task_def sent_free_entity
      split: option.splits if_splits sum.splits prod.splits
      dest!: sent_after_send sent_after_read)

lemma omp_create_config_sent:
  "omp_create_config g s name comment config config_len = Some (r, s') \<Longrightarrow>
   encode_config g config config_len = Some f \<Longrightarrow>
   sent s' = sent s @
     [case comment of
        Some c \<Rightarrow> ''<create_config><name>'' @ name @ ''</name><comment>'' @ c
                    @ ''</comment><rcfile>'' @ f @ ''</rcfile></create_config>''
      | None \<Rightarrow> ''<create_config><name>'' @ name @ ''</name><rcfile>'' @ f
                    @ ''</rcfile></create_config>'']"
  by (auto simp: omp_create_config_def sent_free_entity Let_def
      split: option.splits if_splits sum.splits prod.splits
      dest!: sent_after_send sent_after_read)

lemma create_task_returns:
  "encode_config g config config_len = Some f \<Longrightarrow>
   send_rets s = ret # sends \<and> (ret = 0 \<longrightarrow> read_rets s \<noteq> []) \<Longrightarrow>
   \<exists>r out s'. create_task g s config config_len name comment = Some (r, out, s')"
  by (cases "read_rets s")
     (auto simp: create_task_def openvas_server_send_def session_read_entity_def
        split: option.splits sum.splits)

lemma omp_create_config_returns:
  "encode_config g config config_len = Some f \<Longrightarrow>
   send_rets s = ret # sends \<and> (ret = 0 \<longrightarrow> read_rets s \<noteq> []) \<Longrightarrow>
   \<exists>r s'. omp_create_config g s name comment config config_len = Some (r, s')"
  by (cases "read_rets s")
     (auto simp: omp_create_config_def openvas_server_send_def session_read_entity_def Let_def
        split: option.splits sum.splits)

subsection \<open>The operations that do check the status\<close>

text \<open>
  Once the request is sent and a response is read, these six return \<open>- 1\<close> for a
  missing or empty status, 0 for a status that starts with \<open>2\<close>, and \<open>- 1\<close> for any
  other; \<open>omp_get_status\<close> and \<open>omp_get_certificates\<close> return the number that
  \<open>strtol\<close> reads in place of the last \<open>- 1\<close>, unless \<open>errno\<close> is \<open>ERANGE\<close>, be it from
  this \<open>strtol\<close> or from before the call.
\<close>

lemma status_checked:
  assumes "send_rets s = 0 # sends" and "read_rets s = Inr entity # reads"
  shows "map_option fst (start_task s ident) =
           Some (case entity_attribute entity ''status'' of
                   None \<Rightarrow> - 1
                 | Some status \<Rightarrow> if status = [] then - 1 else if hd status = CHR ''2'' then 0 else - 1)"
    and "map_option fst (delete_task s ident) =
           Some (case entity_attribute entity ''status'' of
                   None \<Rightarrow> - 1
                 | Some status \<Rightarrow> if status = [] then - 1 else if hd status = CHR ''2'' then 0 else - 1)"
    and "map_option fst (omp_create_target s name hosts comment) =
           Some (case entity_attribute entity ''status'' of
                   None \<Rightarrow> - 1
                 | Some status \<Rightarrow> if status = [] then - 1 else if hd status = CHR ''2'' then 0 else - 1)"
    and "map_option fst (omp_delete_target s name) =
           Some (case entity_attribute entity ''status'' of
                   None \<Rightarrow> - 1
                 | Some status \<Rightarrow> if status = [] then - 1 else if hd status = CHR ''2'' then 0 else - 1)"
    and "map_option fst (omp_delete_config s name) =
           Some (case entity_attribute entity ''status'' of
                   None \<Rightarrow> - 1
                 | Some status \<Rightarrow> if status = [] then - 1 else if hd status = CHR ''2'' then 0 else - 1)"
    and "encode_config g config config_len \<noteq> None \<Longrightarrow>
         map_option fst (omp_create_config g s name comment config config_len) =
           Some (case entity_attribute entity ''status'' of
                   None \<Rightarrow> - 1
                 | Some status \<Rightarrow> if status = [] then - 1 else if hd status = CHR ''2'' then 0 else - 1)"
  using assms
  by (auto simp: start_task_def delete_task_def omp_create_target_def omp_delete_target_def
      omp_delete_config_def omp_create_config_def openvas_server_send_def
      session_read_entity_def Let_def split: option.splits)

lemma status_code_returned:
  assumes "read_rets s = Inr response # reads"
  shows "send_rets s = ret # sends \<Longrightarrow> ret \<noteq> - 1 \<Longrightarrow>
         map_option fst (omp_get_status s ident include_rcfile) =
           Some (case entity_attribute response ''status'' of
                   None \<Rightarrow> - 1
                 | Some status_code \<Rightarrow>
                     if status_code = [] then - 1
                     else if hd status_code = CHR ''2'' then 0
                     else if snd (strtol status_code) \<or> errno s = ERANGE then - 1
                     else int_of_long (fst (strtol status_code)))"
    and "send_rets s = 0 # sends \<Longrightarrow>
         map_option fst (omp_get_certificates s) =
           Some (case entity_attribute response ''status'' of
                   None \<Rightarrow> - 1
                 | Some status_code \<Rightarrow>
                     if status_code = [] then - 1
                     else if hd status_code = CHR ''2'' then 0
                     else if snd (strtol status_code) \<or> errno s = ERANGE then - 1
                     else int_of_long (fst (strtol status_code)))"
  using assms
  by (auto simp: omp_get_status_def omp_get_certificates_def openvas_server_send_def
      session_read_entity_def free_entity_def Let_def split: option.splits prod.splits)

lemma status_numbers:
  "strtol ''400'' = (400, False)" "strtol ''503'' = (503, False)"
  "int_of_long 400 = 400" "int_of_long 503 = 503"
  by (simp_all add: strtol_def isspace_def digit_val_def LONG_MAX_def LONG_MIN_def int_of_long_def)

subsection \<open>The claims about the protocol client\<close>

text \<open>
  C1. The claim: every operation that sends a request and checks the response
  (create, delete and modify task, create and delete target, create and delete config,
  \<open>start_task\<close>) returns an error for a missing or empty status, 0 for a status that
  starts with \<open>2\<close> and a failure for any other status. \<open>omp_delete_task\<close> and
  \<open>omp_modify_task\<close> do not look at the status: the source has
  \<open>// FIX check status\<close> where the check belongs, and their comments promise \<open>- 1\<close>
  or the response code on error. The theorem runs each on a response with status 400:
  it returns 0, where \<open>delete_task\<close>, which sends the same request as
  \<open>omp_delete_task\<close>, returns \<open>- 1\<close>.
\<close>

theorem omp_delete_task_returns_0_on_status_400:
  \<open>omp_delete_task
     (script [0] [Inr (Entity ''delete_task_response'' '''' (Some [(''status'', ''400'')]) [])])
     ''t1''
   = Some (0, \<lparr>send_rets = [], read_rets = [], errno = 0,
                 sent = [''<delete_task task_id="t1"/>''],
                 freed = [Entity ''delete_task_response'' '''' (Some [(''status'', ''400'')]) []],
                 slept = 0\<rparr>)
   \<and> delete_task
     (script [0] [Inr (Entity ''delete_task_response'' '''' (Some [(''status'', ''400'')]) [])])
     ''t1''
   = Some (- 1, \<lparr>send_rets = [], read_rets = [], errno = 0,
                 sent = [''<delete_task task_id="t1"/>''],
                 freed = [Entity ''delete_task_response'' '''' (Some [(''status'', ''400'')]) []],
                 slept = 0\<rparr>)
   \<and> omp_modify_task (\<lambda>bytes. ''QUJD'')
     (script [0, 0, 0, 0]
        [Inr (Entity ''modify_task_response'' '''' (Some [(''status'', ''400'')]) [])])
     ''t1'' (Some ''ABC'') None (Some ''c'')
   = Some (0, \<lparr>send_rets = [], read_rets = [], errno = 0,
                 sent = [''<modify_task task_id="t1">'', ''<rcfile>QUJD</rcfile>'',
                         ''<comment>c</comment>'', ''</modify_task>''],
                 freed = [Entity ''modify_task_response'' '''' (Some [(''status'', ''400'')]) []],
                 slept = 0\<rparr>)\<close>
  by (simp add: omp_delete_task_def delete_task_def omp_modify_task_def send_part_def script_def
      openvas_server_send_def session_read_entity_def free_entity_def entity_attribute_def
      g_hash_table_lookup_def)

text \<open>
  C2. The claim: \<open>omp_get_status\<close>, \<open>omp_get_report\<close>, \<open>omp_get_preferences\<close> and
  \<open>omp_get_certificates\<close> return 0 and leave the response to the caller for a status
  that starts with \<open>2\<close>, free the response and return the numeric code for a status
  such as 400 or 503, and return \<open>- 1\<close> for a missing or empty status.
  \<open>omp_get_report\<close> and \<open>omp_get_preferences\<close> do not look at the status (again
  \<open>// FIX check status\<close>, under a comment that promises \<open>- 1\<close> or the response code
  on error): on a response with status 400 or 503 they return 0 and free nothing.
  \<open>omp_get_certificates\<close> on the same response returns 503 and frees it.
\<close>

theorem omp_get_report_returns_0_on_status_400:
  \<open>omp_get_report
     (script [0] [Inr (Entity ''get_report_response'' '''' (Some [(''status'', ''400'')]) [])])
     ''r1''
   = Some (0, Written (Some (Entity ''get_report_response'' '''' (Some [(''status'', ''400'')]) [])),
           \<lparr>send_rets = [], read_rets = [], errno = 0,
              sent = [''<get_report format="nbe" report_id="r1"/>''],
              freed = [], slept = 0\<rparr>)
   \<and> omp_get_preferences
     (script [0] [Inr (Entity ''get_preferences_response'' '''' (Some [(''status'', ''503'')]) [])])
   = Some (0, Written (Some (Entity ''get_preferences_response'' '''' (Some [(''status'', ''503'')]) [])),
           \<lparr>send_rets = [], read_rets = [], errno = 0,
              sent = [''<get_preferences/>''],
              freed = [], slept = 0\<rparr>)
   \<and> omp_get_certificates
     (script [0] [Inr (Entity ''get_preferences_response'' '''' (Some [(''status'', ''503'')]) [])])
   = Some (503, Written (Some (Entity ''get_preferences_response'' '''' (Some [(''status'', ''503'')]) [])),
           \<lparr>send_rets = [], read_rets = [], errno = 0,
              sent = [''<get_preferences/>''],
              freed = [Entity ''get_preferences_response'' '''' (Some [(''status'', ''503'')]) []],
              slept = 0\<rparr>)\<close>
  by (simp add: omp_get_report_def omp_get_preferences_def omp_get_certificates_def script_def
      openvas_server_send_def session_read_entity_def free_entity_def entity_attribute_def
      g_hash_table_lookup_def strtol_def isspace_def digit_val_def int_of_long_def
      LONG_MAX_def LONG_MIN_def ERANGE_def)

text \<open>
  C9. \<open>omp_get_certificates\<close> hands the send primitive the string
  \<open><get_preferences/>\<close>, the very request of \<open>omp_get_preferences\<close>: whenever either
  call returns, the session's list of requests has grown by exactly that string. The
  two differ in the treatment of a response that was read: \<open>omp_get_preferences\<close>
  returns 0 and leaves it to the caller whatever its status is, and
  \<open>omp_get_certificates\<close> is \<open>omp_get_preferences\<close> followed by the inspection of
  the status attribute (missing or empty: \<open>- 1\<close>; first character \<open>2\<close>: 0; else the
  response is freed and the result is that of \<open>strtol\<close>, or \<open>- 1\<close> when \<open>errno\<close> is
  \<open>ERANGE\<close>). Where no response was read the two results are the same.
\<close>

theorem omp_get_certificates_sends_get_preferences:
  "(omp_get_certificates s = Some (r, out, s') \<longrightarrow> sent s' = sent s @ [''<get_preferences/>''])
   \<and> (omp_get_preferences s = Some (r, out, s') \<longrightarrow> sent s' = sent s @ [''<get_preferences/>''])
   \<and> omp_get_certificates s =
       (case omp_get_preferences s of
          None \<Rightarrow> None
        | Some (ret, Not_written, s1) \<Rightarrow> Some (ret, Not_written, s1)
        | Some (ret, Written None, s1) \<Rightarrow> Some (ret, Written None, s1)
        | Some (ret, Written (Some response), s1) \<Rightarrow>
            (case entity_attribute response ''status'' of
               None \<Rightarrow> Some (- 1, Written (Some response), free_entity s1 response)
             | Some status_code \<Rightarrow>
                 if status_code = [] then Some (- 1, Written (Some response), free_entity s1 response)
                 else if hd status_code = CHR ''2'' then Some (0, Written (Some response), s1)
                 else if snd (strtol status_code) \<or> errno s1 = ERANGE
                 then Some (- 1, Written (Some response),
                        free_entity (if snd (strtol status_code) then s1\<lparr>errno := ERANGE\<rparr> else s1) response)
                 else Some (int_of_long (fst (strtol status_code)), Written (Some response),
                        free_entity s1 response)))
   \<and> (send_rets s = 0 # sends \<and> read_rets s = Inr response # reads \<longrightarrow>
        omp_get_preferences s =
          Some (0, Written (Some response),
                s\<lparr>send_rets := sends, sent := sent s @ [''<get_preferences/>''], read_rets := reads\<rparr>))"
proof (intro conjI impI)
  show "omp_get_certificates s =
       (case omp_get_preferences s of
          None \<Rightarrow> None
        | Some (ret, Not_written, s1) \<Rightarrow> Some (ret, Not_written, s1)
        | Some (ret, Written None, s1) \<Rightarrow> Some (ret, Written None, s1)
        | Some (ret, Written (Some response), s1) \<Rightarrow>
            (case entity_attribute response ''status'' of
               None \<Rightarrow> Some (- 1, Written (Some response), free_entity s1 response)
             | Some status_code \<Rightarrow>
                 if status_code = [] then Some (- 1, Written (Some response), free_entity s1 response)
                 else if hd status_code = CHR ''2'' then Some (0, Written (Some response), s1)
                 else if snd (strtol status_code) \<or> errno s1 = ERANGE
                 then Some (- 1, Written (Some response),
                        free_entity (if snd (strtol status_code) then s1\<lparr>errno := ERANGE\<rparr> else s1) response)
                 else Some (int_of_long (fst (strtol status_code)), Written (Some response),
                        free_entity s1 response)))"
    by (auto simp: omp_get_certificates_def omp_get_preferences_def Let_def free_entity_def
        split: option.splits sum.splits prod.splits)
next
  assume "omp_get_certificates s = Some (r, out, s')"
  then show "sent s' = sent s @ [''<get_preferences/>'']" by (rule sent_omp_get_certificates)
next
  assume "omp_get_preferences s = Some (r, out, s')"
  then show "sent s' = sent s @ [''<get_preferences/>'']" by (rule sent_omp_get_preferences)
next
  assume "send_rets s = 0 # sends \<and> read_rets s = Inr response # reads"
  then show "omp_get_preferences s =
          Some (0, Written (Some response),
                s\<lparr>send_rets := sends, sent := sent s @ [''<get_preferences/>''], read_rets := reads\<rparr>)"
    by (simp add: omp_get_preferences_def openvas_server_send_def session_read_entity_def)
qed

theorem omp_get_certificates_sends_get_preferences_witness:
  "omp_get_certificates
     (script [0] [Inr (Entity ''get_preferences_response'' '''' (Some [(''status'', ''200'')]) [])])
   = Some (0, Written (Some (Entity ''get_preferences_response'' '''' (Some [(''status'', ''200'')]) [])),
           \<lparr>send_rets = [], read_rets = [], errno = 0, sent = [''<get_preferences/>''],
              freed = [], slept = 0\<rparr>)
   \<and> omp_get_preferences
     (script [0] [Inr (Entity ''get_preferences_response'' '''' (Some [(''status'', ''200'')]) [])])
   = Some (0, Written (Some (Entity ''get_preferences_response'' '''' (Some [(''status'', ''200'')]) [])),
           \<lparr>send_rets = [], read_rets = [], errno = 0, sent = [''<get_preferences/>''],
              freed = [], slept = 0\<rparr>)
   \<and> send_rets
     (script [0] [Inr (Entity ''get_preferences_response'' '''' (Some [(''status'', ''200'')]) [])])
     = 0 # []
   \<and> read_rets
     (script [0] [Inr (Entity ''get_preferences_response'' '''' (Some [(''status'', ''200'')]) [])])
     = Inr (Entity ''get_preferences_response'' '''' (Some [(''status'', ''200'')]) []) # []
   \<and> sent \<lparr>send_rets = [], read_rets = [], errno = 0, sent = [''<get_preferences/>''],
              freed = [], slept = 0\<rparr>
     = sent (script [0]
          [Inr (Entity ''get_preferences_response'' '''' (Some [(''status'', ''200'')]) [])])
        @ [''<get_preferences/>'']"
  using omp_get_certificates_sends_get_preferences
    [of "script [0] [Inr (Entity ''get_preferences_response'' '''' (Some [(''status'', ''200'')]) [])]"
        0 "Written (Some (Entity ''get_preferences_response'' '''' (Some [(''status'', ''200'')]) []))"
        "\<lparr>send_rets = [], read_rets = [], errno = 0, sent = [''<get_preferences/>''],
              freed = [], slept = 0\<rparr>"
        "[]" "Entity ''get_preferences_response'' '''' (Some [(''status'', ''200'')]) []" "[]"]
  by (simp add: omp_get_certificates_def omp_get_preferences_def script_def
      openvas_server_send_def session_read_entity_def entity_attribute_def
      g_hash_table_lookup_def)

text \<open>
  C10. \<open>create_task\<close> and \<open>omp_create_config\<close> choose between the encoded payload and
  the empty field by \<open>strlen (config)\<close>, not by \<open>config_len\<close>. For every payload
  whose first byte is NUL the field is empty whatever \<open>config_len\<close>, the rest of the
  payload and the encoder are: the call is the same as the call with the one-byte
  payload and length 0, and the request it sends carries \<open><rcfile></rcfile>\<close>. For
  every payload whose first byte is not NUL (\<open>strlen (config)\<close> is not 0) the request
  of either function carries the encoding of the first \<open>config_len\<close> bytes, also when
  \<open>config_len\<close> is 0. In both cases the function returns once the send primitive has
  answered and, if the send succeeded, a response or a read error has come.
\<close>

theorem rcfile_decided_by_strlen:
  "encode_config g (CHR 0x00 # rest) config_len = Some ''''
   \<and> create_task g s (CHR 0x00 # rest) config_len name comment
       = create_task g' s [CHR 0x00] 0 name comment
   \<and> omp_create_config g s name cmt (CHR 0x00 # rest) config_len
       = omp_create_config g' s name cmt [CHR 0x00] 0
   \<and> (create_task g s (CHR 0x00 # rest) config_len name comment = Some (r, out, s') \<longrightarrow>
        sent s' = sent s @ [''<create_task><rcfile></rcfile><name>'' @ name
                              @ ''</name><comment>'' @ comment @ ''</comment></create_task>''])
   \<and> (omp_create_config g s name cmt (CHR 0x00 # rest) config_len = Some (r, s') \<longrightarrow>
        sent s' = sent s @
          [case cmt of
             Some c \<Rightarrow> ''<create_config><name>'' @ name @ ''</name><comment>'' @ c
                         @ ''</comment><rcfile></rcfile></create_config>''
           | None \<Rightarrow> ''<create_config><name>'' @ name
                         @ ''</name><rcfile></rcfile></create_config>''])
   \<and> (c_strlen config = Some n \<and> n \<noteq> 0 \<longrightarrow>
        encode_config g config config_len = map_option g (read_bytes config config_len))
   \<and> (send_rets s = ret # sends \<and> (ret = 0 \<longrightarrow> read_rets s \<noteq> []) \<longrightarrow>
        (\<exists>r out s'. create_task g s (CHR 0x00 # rest) config_len name comment = Some (r, out, s')
           \<and> sent s' = sent s @ [''<create_task><rcfile></rcfile><name>'' @ name
                              @ ''</name><comment>'' @ comment @ ''</comment></create_task>''])
        \<and> (\<exists>r s'. omp_create_config g s name cmt (CHR 0x00 # rest) config_len = Some (r, s')
           \<and> sent s' = sent s @
                [case cmt of
                   Some c \<Rightarrow> ''<create_config><name>'' @ name @ ''</name><comment>'' @ c
                               @ ''</comment><rcfile></rcfile></create_config>''
                 | None \<Rightarrow> ''<create_config><name>'' @ name
                               @ ''</name><rcfile></rcfile></create_config>'']))
   \<and> (send_rets s = ret # sends \<and> (ret = 0 \<longrightarrow> read_rets s \<noteq> [])
        \<and> c_strlen config = Some n \<and> n \<noteq> 0 \<and> config_len \<le> length config \<longrightarrow>
        (\<exists>r out s'. create_task g s config config_len name comment = Some (r, out, s')
           \<and> sent s' = sent s @ [''<create_task><rcfile>'' @ g (take config_len config)
                              @ ''</rcfile><name>'' @ name
                              @ ''</name><comment>'' @ comment @ ''</comment></create_task>''])
        \<and> (\<exists>r s'. omp_create_config g s name cmt config config_len = Some (r, s')
           \<and> sent s' = sent s @
                [case cmt of
                   Some c \<Rightarrow> ''<create_config><name>'' @ name @ ''</name><comment>'' @ c
                               @ ''</comment><rcfile>'' @ g (take config_len config)
                               @ ''</rcfile></create_config>''
                 | None \<Rightarrow> ''<create_config><name>'' @ name
                               @ ''</name><rcfile>'' @ g (take config_len config)
                               @ ''</rcfile></create_config>'']))"
proof (intro conjI impI)
  show "encode_config g (CHR 0x00 # rest) config_len = Some ''''"
    by (rule encode_config_nul)
  show "create_task g s (CHR 0x00 # rest) config_len name comment
       = create_task g' s [CHR 0x00] 0 name comment"
    by (simp add: create_task_def encode_config_nul)
  show "omp_create_config g s name cmt (CHR 0x00 # rest) config_len
       = omp_create_config g' s name cmt [CHR 0x00] 0"
    by (simp add: omp_create_config_def encode_config_nul)
next
  assume "create_task g s (CHR 0x00 # rest) config_len name comment = Some (r, out, s')"
  from create_task_sent [OF this encode_config_nul]
  show "sent s' = sent s @ [''<create_task><rcfile></rcfile><name>'' @ name
                              @ ''</name><comment>'' @ comment @ ''</comment></create_task>'']"
    by simp
next
  assume "omp_create_config g s name cmt (CHR 0x00 # rest) config_len = Some (r, s')"
  from omp_create_config_sent [OF this encode_config_nul]
  show "sent s' = sent s @
          [case cmt of
             Some c \<Rightarrow> ''<create_config><name>'' @ name @ ''</name><comment>'' @ c
                         @ ''</comment><rcfile></rcfile></create_config>''
           | None \<Rightarrow> ''<create_config><name>'' @ name
                         @ ''</name><rcfile></rcfile></create_config>'']"
    by (simp split: option.splits)
next
  assume "c_strlen config = Some n \<and> n \<noteq> 0"
  then show "encode_config g config config_len = map_option g (read_bytes config config_len)"
    by (simp add: encode_config_nonempty)
next
  assume script: "send_rets s = ret # sends \<and> (ret = 0 \<longrightarrow> read_rets s \<noteq> [])"
  from create_task_returns [OF _ script, of g "CHR 0x00 # rest" config_len "''''" name comment]
  obtain r out s' where
    returned: "create_task g s (CHR 0x00 # rest) config_len name comment = Some (r, out, s')"
    by (auto simp: encode_config_nul)
  from returned create_task_sent [OF returned encode_config_nul]
  show "\<exists>r out s'. create_task g s (CHR 0x00 # rest) config_len name comment = Some (r, out, s')
           \<and> sent s' = sent s @ [''<create_task><rcfile></rcfile><name>'' @ name
                              @ ''</name><comment>'' @ comment @ ''</comment></create_task>'']"
    by simp
  from omp_create_config_returns [OF _ script, of g "CHR 0x00 # rest" config_len "''''" name cmt]
  obtain r s' where
    returned: "omp_create_config g s name cmt (CHR 0x00 # rest) config_len = Some (r, s')"
    by (auto simp: encode_config_nul)
  from returned omp_create_config_sent [OF returned encode_config_nul]
  show "\<exists>r s'. omp_create_config g s name cmt (CHR 0x00 # rest) config_len = Some (r, s')
           \<and> sent s' = sent s @
                [case cmt of
                   Some c \<Rightarrow> ''<create_config><name>'' @ name @ ''</name><comment>'' @ c
                               @ ''</comment><rcfile></rcfile></create_config>''
                 | None \<Rightarrow> ''<create_config><name>'' @ name
                               @ ''</name><rcfile></rcfile></create_config>'']"
    by (simp split: option.splits)
next
  assume "send_rets s = ret # sends \<and> (ret = 0 \<longrightarrow> read_rets s \<noteq> [])
        \<and> c_strlen config = Some n \<and> n \<noteq> 0 \<and> config_len \<le> length config"
  then have script: "send_rets s = ret # sends \<and> (ret = 0 \<longrightarrow> read_rets s \<noteq> [])"
    and encoded: "encode_config g config config_len = Some (g (take config_len config))"
    by (simp_all add: encode_config_nonempty read_bytes_def)
  from create_task_returns [OF encoded script, of name comment]
  obtain r out s' where
    returned: "create_task g s config config_len name comment = Some (r, out, s')"
    by auto
  from returned create_task_sent [OF returned encoded]
  show "\<exists>r out s'. create_task g s config config_len name comment = Some (r, out, s')
           \<and> sent s' = sent s @ [''<create_task><rcfile>'' @ g (take config_len config)
                              @ ''</rcfile><name>'' @ name
                              @ ''</name><comment>'' @ comment @ ''</comment></create_task>'']"
    by simp
  from omp_create_config_returns [OF encoded script, of name cmt]
  obtain r s' where
    returned: "omp_create_config g s name cmt config config_len = Some (r, s')"
    by auto
  from returned omp_create_config_sent [OF returned encoded]
  show "\<exists>r s'. omp_create_config g s name cmt config config_len = Some (r, s')
           \<and> sent s' = sent s @
                [case cmt of
                   Some c \<Rightarrow> ''<create_config><name>'' @ name @ ''</name><comment>'' @ c
                               @ ''</comment><rcfile>'' @ g (take config_len config)
                               @ ''</rcfile></create_config>''
                 | None \<Rightarrow> ''<create_config><name>'' @ name
                               @ ''</name><rcfile>'' @ g (take config_len config)
                               @ ''</rcfile></create_config>'']"
    by (simp split: option.splits)
qed

theorem rcfile_decided_by_strlen_witness:
  \<open>create_task (\<lambda>bytes. ''QUJD'') (script [0] [Inl End_of_file]) (CHR 0x00 # ''BC'') 3 ''n'' ''c''
     = Some (- 1, Not_written,
         \<lparr>send_rets = [], read_rets = [], errno = 0,
            sent = [''<create_task><rcfile></rcfile><name>n</name><comment>c</comment></create_task>''],
            freed = [], slept = 0\<rparr>)
   \<and> omp_create_config (\<lambda>bytes. ''QUJD'') (script [0] [Inl End_of_file]) ''n'' None (CHR 0x00 # ''BC'') 3
     = Some (- 1,
         \<lparr>send_rets = [], read_rets = [], errno = 0,
            sent = [''<create_config><name>n</name><rcfile></rcfile></create_config>''],
            freed = [], slept = 0\<rparr>)
   \<and> c_strlen (''ABC'' @ [CHR 0x00]) = Some 3
   \<and> encode_config (\<lambda>bytes. ''QUJD'') (''ABC'' @ [CHR 0x00]) 3 = Some ''QUJD''
   \<and> create_task (\<lambda>bytes. ''QUJD'') (script [0] [Inl End_of_file]) (''ABC'' @ [CHR 0x00]) 3 ''n'' ''c''
     = Some (- 1, Not_written,
         \<lparr>send_rets = [], read_rets = [], errno = 0,
            sent = [''<create_task><rcfile>QUJD</rcfile><name>n</name><comment>c</comment></create_task>''],
            freed = [], slept = 0\<rparr>)
   \<and> omp_create_config (\<lambda>bytes. ''QUJD'') (script [0] [Inl End_of_file]) ''n'' None
        (''ABC'' @ [CHR 0x00]) 3
     = Some (- 1,
         \<lparr>send_rets = [], read_rets = [], errno = 0,
            sent = [''<create_config><name>n</name><rcfile>QUJD</rcfile></create_config>''],
            freed = [], slept = 0\<rparr>)\<close>
  using rcfile_decided_by_strlen
    [of "\<lambda>bytes. ''QUJD''" "''BC''" 3 "script [0] [Inl End_of_file]" "''n''" "''c''"
        "\<lambda>bytes. ''QUJD''" None "- 1" Not_written
        "\<lparr>send_rets = [], read_rets = [], errno = 0,
            sent = [''<create_task><rcfile></rcfile><name>n</name><comment>c</comment></create_task>''],
            freed = [], slept = 0\<rparr>" "''ABC'' @ [CHR 0x00]" 3 0 "[]"]
  by (simp add: create_task_def omp_create_config_def script_def openvas_server_send_def
      session_read_entity_def encode_config_def c_strlen_def read_bytes_def)

text \<open>
  C6. The claim: \<open>create_task\<close> and \<open>omp_create_task\<close> check the status attribute as
  the other operations do and then take the identifier. Neither function reads the
  status attribute: the \<open>task_id\<close> child alone decides. On a response with status 400
  that has a \<open>task_id\<close> child both return 0 and store the child's text.
\<close>

theorem create_task_returns_0_on_status_400:
  "omp_create_task
     (script [0] [Inr (Entity ''create_task_response'' '''' (Some [(''status'', ''400'')])
                        [Entity ''task_id'' ''t1'' None []])])
     ''name'' ''config'' ''target'' ''comment''
   = Some (0, Written ''t1'',
       \<lparr>send_rets = [], read_rets = [], errno = 0,
          sent = [''<create_task><config>config</config><target>target</target><name>name</name><comment>comment</comment></create_task>''],
          freed = [], slept = 0\<rparr>)
   \<and> create_task (\<lambda>bytes. ''QUJD'')
     (script [0] [Inr (Entity ''create_task_response'' '''' (Some [(''status'', ''400'')])
                        [Entity ''task_id'' ''t1'' None []])])
     (''ABC'' @ [CHR 0x00]) 3 ''name'' ''comment''
   = Some (0, Written ''t1'',
       \<lparr>send_rets = [], read_rets = [], errno = 0,
          sent = [''<create_task><rcfile>QUJD</rcfile><name>name</name><comment>comment</comment></create_task>''],
          freed = [], slept = 0\<rparr>)"
  by (simp add: omp_create_task_def create_task_def script_def openvas_server_send_def
      session_read_entity_def entity_child_def encode_config_def c_strlen_def read_bytes_def)

text \<open>
  C6 as amended: once the request is sent and a response is read, \<open>create_task\<close> and
  \<open>omp_create_task\<close> return \<open>- 1\<close> (after freeing the response, and without
  writing \<open>id\<close>) when the response has no child named \<open>task_id\<close>, and otherwise
  store a copy of the text of the first such child in \<open>id\<close> and return 0; the status
  attribute plays no part.
\<close>

theorem create_task_decides_by_task_id:
  "(send_rets s = 0 # sends \<and> read_rets s = Inr entity # reads
      \<and> encode_config g config config_len = Some new_task_file \<longrightarrow>
    create_task g s config config_len name comment =
      (case entity_child entity ''task_id'' of
         None \<Rightarrow>
           Some (- 1, Not_written,
             free_entity
               (s\<lparr>send_rets := sends, read_rets := reads,
                   sent := sent s @ [''<create_task><rcfile>'' @ new_task_file @ ''</rcfile><name>''
                     @ name @ ''</name><comment>'' @ comment @ ''</comment></create_task>'']\<rparr>)
               entity)
       | Some id_entity \<Rightarrow>
           Some (0, Written (entity_text id_entity),
             s\<lparr>send_rets := sends, read_rets := reads,
                 sent := sent s @ [''<create_task><rcfile>'' @ new_task_file @ ''</rcfile><name>''
                   @ name @ ''</name><comment>'' @ comment @ ''</comment></create_task>'']\<rparr>)))
   \<and> (send_rets s = 0 # sends \<and> read_rets s = Inr entity # reads \<longrightarrow>
    omp_create_task s name cfg target comment =
      (case entity_child entity ''task_id'' of
         None \<Rightarrow>
           Some (- 1, Not_written,
             free_entity
               (s\<lparr>send_rets := sends, read_rets := reads,
                   sent := sent s @ [''<create_task><config>'' @ cfg @ ''</config><target>''
                     @ target @ ''</target><name>'' @ name @ ''</name><comment>'' @ comment
                     @ ''</comment></create_task>'']\<rparr>)
               entity)
       | Some id_entity \<Rightarrow>
           Some (0, Written (entity_text id_entity),
             s\<lparr>send_rets := sends, read_rets := reads,
                 sent := sent s @ [''<create_task><config>'' @ cfg @ ''</config><target>''
                   @ target @ ''</target><name>'' @ name @ ''</name><comment>'' @ comment
                   @ ''</comment></create_task>'']\<rparr>)))"
  by (simp add: create_task_def omp_create_task_def openvas_server_send_def
      session_read_entity_def free_entity_def split: option.splits)

theorem create_task_decides_by_task_id_witness:
  "send_rets (script [0] [Inr (Entity ''create_task_response'' '''' (Some [(''status'', ''201'')])
                        [Entity ''task_id'' ''t7'' None []])]) = 0 # []
   \<and> read_rets (script [0] [Inr (Entity ''create_task_response'' '''' (Some [(''status'', ''201'')])
                        [Entity ''task_id'' ''t7'' None []])])
       = Inr (Entity ''create_task_response'' '''' (Some [(''status'', ''201'')])
                        [Entity ''task_id'' ''t7'' None []]) # []
   \<and> encode_config (\<lambda>bytes. ''QUJD'') (''ABC'' @ [CHR 0x00]) 3 = Some ''QUJD''
   \<and> create_task (\<lambda>bytes. ''QUJD'')
        (script [0] [Inr (Entity ''create_task_response'' '''' (Some [(''status'', ''201'')])
                        [Entity ''task_id'' ''t7'' None []])])
        (''ABC'' @ [CHR 0x00]) 3 ''n'' ''c''
       = Some (0, Written ''t7'',
           \<lparr>send_rets = [], read_rets = [], errno = 0,
              sent = [''<create_task><rcfile>QUJD</rcfile><name>n</name><comment>c</comment></create_task>''],
              freed = [], slept = 0\<rparr>)
   \<and> omp_create_task
        (script [0] [Inr (Entity ''create_task_response'' '''' (Some [(''status'', ''201'')])
                        [Entity ''task_id'' ''t7'' None []])])
        ''n'' ''f'' ''g'' ''c''
       = Some (0, Written ''t7'',
           \<lparr>send_rets = [], read_rets = [], errno = 0,
              sent = [''<create_task><config>f</config><target>g</target><name>n</name><comment>c</comment></create_task>''],
              freed = [], slept = 0\<rparr>)"
  using create_task_decides_by_task_id
    [of "script [0] [Inr (Entity ''create_task_response'' '''' (Some [(''status'', ''201'')])
                        [Entity ''task_id'' ''t7'' None []])]" "[]"
        "Entity ''create_task_response'' '''' (Some [(''status'', ''201'')])
                        [Entity ''task_id'' ''t7'' None []]" "[]"
        "\<lambda>bytes. ''QUJD''" "''ABC'' @ [CHR 0x00]" 3 "''QUJD''" "''n''" "''c''" "''f''" "''g''"]
  by (simp add: script_def entity_child_def encode_config_def c_strlen_def read_bytes_def)

subsection \<open>One round of a polling loop\<close>














subsection \<open>The claims about the reader\<close>

lemma callbacks_append:
  "callbacks data (es1 @ es2) =
     (case callbacks data es1 of Inl c \<Rightarrow> Inl c | Inr data' \<Rightarrow> callbacks data' es2)"
  by (induction es1 arbitrary: data) (auto split: sum.splits)

lemma read_loop_result:
  "read_loop parser xml_context data string transport = Some (Inr r) \<Longrightarrow>
     (result_code r = 0 \<or> result_code r = - 1 \<or> result_code r = - 2 \<or> result_code r = - 3)
     \<and> (result_entity r \<noteq> None) = (result_code r = 0)
     \<and> (result_text r \<noteq> None \<longrightarrow> result_code r = 0)
     \<and> (result_code r = 0 \<longrightarrow> result_freed r = None)"
proof (induction parser xml_context data string transport rule: read_loop.induct)
  case (1 parser xml_context data string)
  then show ?case by simp
next
  case (2 parser xml_context data string count transport)
  then show ?case by (auto split: if_splits)
next
  case (3 parser xml_context data string buffer transport)
  then show ?case
    by (auto split: if_splits prod.splits sum.splits list.splits)
qed

lemma read_loop_complete:
  "read_loop parser xml_context data string transport = Some (Inr r) \<Longrightarrow> result_code r = 0 \<Longrightarrow>
   callbacks start before = Inr data \<Longrightarrow>
     \<exists>events data' root stack. callbacks start events = Inr data' \<and> done_flag data'
        \<and> first data' = root # stack \<and> result_entity r = Some root
        \<and> result_heap r = heap data'"
proof (induction parser xml_context data string transport arbitrary: before rule: read_loop.induct)
  case (1 parser xml_context data string)
  then show ?case by simp
next
  case (2 parser xml_context data string count transport)
  then show ?case by (auto split: if_splits)
next
  case (3 parser xml_context data string buffer transport)
  from "3.prems"(1) have size: "\<not> BUFFER_SIZE < length buffer" "length buffer \<noteq> 0"
    using "3.prems"(2) by (auto split: if_splits)
  obtain events xml_context' error where p: "parse parser xml_context buffer = (events, xml_context', error)"
    by (cases "parse parser xml_context buffer") auto
  from "3.prems"(1) size p obtain data1 where c: "callbacks data events = Inr data1"
    by (cases "callbacks data events") auto
  have run: "callbacks start (before @ events) = Inr data1"
    using "3.prems"(3) c by (simp add: callbacks_append)
  from "3.prems"(1,2) size p c have ne: "\<not> error"
    by (auto split: if_splits)
  show ?case
  proof (cases "done_flag data1")
    case True
    with "3.prems"(1,2) size p c ne obtain root stack
      where "first data1 = root # stack" "result_entity r = Some root"
        "result_heap r = heap data1"
      by (auto split: if_splits list.splits)
    with run True show ?thesis by blast
  next
    case False
    with "3.prems"(1) size p c ne
    have "read_loop parser xml_context' data1 (map_option (\<lambda>s. s @ buffer) string) transport
        = Some (Inr r)"
      by simp
    from "3.IH" [OF size(1) size(2) p [symmetric] _ c ne False this "3.prems"(2) run]
    show ?thesis by simp
  qed
qed

text \<open>
  C5. In the loop of \<open>read_entity_and_text\<close> (and so of \<open>read_entity\<close>, which is the
  same call without the text), whatever has been built so far: a receive that returns
  \<open>GNUTLS_E_INTERRUPTED\<close> or \<open>GNUTLS_E_REHANDSHAKE\<close> is followed by the next receive
  with the tokenizer, the tree and the collected text unchanged; a receive of zero bytes
  calls \<open>g_markup_parse_context_end_parse\<close>, frees the root if there is one and
  returns \<open>- 3\<close>; any other negative result frees the root if there is one and returns
  \<open>- 1\<close>; in both cases nothing is stored in \<open>*entity\<close> or \<open>*text\<close>. And a call that
  returns stores an entity exactly when it returns 0, and then has freed nothing; the
  entity it stores is the root of a tree that the callbacks have built up to the
  closing of the root element (\<open>done\<close> is set), for the events of the chunks read.
  The witness is the transport that delivers \<open><a><b>\<close> and then closes, and the one
  that then fails.
\<close>

theorem read_loop_receive_failures:
  "read_loop parser xml_context data string (Recv_error GNUTLS_E_INTERRUPTED # transport)
     = read_loop parser xml_context data string transport
   \<and> read_loop parser xml_context data string (Recv_error GNUTLS_E_REHANDSHAKE # transport)
     = read_loop parser xml_context data string transport
   \<and> read_loop parser xml_context data string (Recv_bytes [] # transport)
     = Some (Inr \<lparr>result_code = - 3, result_entity = None, result_text = None,
                   result_freed = free_root data, result_end_parsed = True,
                   result_heap = heap data, result_unread = transport\<rparr>)
   \<and> (count \<noteq> GNUTLS_E_INTERRUPTED \<and> count \<noteq> GNUTLS_E_REHANDSHAKE \<longrightarrow>
        read_loop parser xml_context data string (Recv_error count # transport)
          = Some (Inr \<lparr>result_code = - 1, result_entity = None, result_text = None,
                   result_freed = free_root data, result_end_parsed = False,
                   result_heap = heap data, result_unread = transport\<rparr>))
   \<and> free_root data = (if first data = [] then None else Some (hd (first data)))
   \<and> read_entity parser stream = read_entity_and_text parser False stream
   \<and> (read_entity_and_text parser want_text stream = Some (Inr r) \<longrightarrow>
        (result_entity r \<noteq> None) = (result_code r = 0)
        \<and> (result_text r \<noteq> None \<longrightarrow> result_code r = 0)
        \<and> (result_code r = 0 \<longrightarrow> result_freed r = None)
        \<and> (result_code r = 0 \<longrightarrow>
             (\<exists>events data' root stack.
                callbacks \<lparr>heap = [], first = [], current = [], done_flag = False\<rparr> events
                  = Inr data'
                \<and> done_flag data' \<and> first data' = root # stack
                \<and> result_entity r = Some root \<and> result_heap r = heap data')))"
proof (intro conjI impI)
  assume "read_entity_and_text parser want_text stream = Some (Inr r)"
  then have *: "read_loop parser (new_context parser)
       \<lparr>heap = [], first = [], current = [], done_flag = False\<rparr>
       (if want_text then Some [] else None) stream = Some (Inr r)"
    by (simp add: read_entity_and_text_def)
  from read_loop_result [OF *]
  show "(result_entity r \<noteq> None) = (result_code r = 0)"
    and "result_text r \<noteq> None \<Longrightarrow> result_code r = 0"
    and "result_code r = 0 \<Longrightarrow> result_freed r = None"
    by blast+
  assume "result_code r = 0"
  from read_loop_complete [OF * this, of _ "[]"]
  show "\<exists>events data' root stack.
          callbacks \<lparr>heap = [], first = [], current = [], done_flag = False\<rparr> events
            = Inr data'
          \<and> done_flag data' \<and> first data' = root # stack
          \<and> result_entity r = Some root \<and> result_heap r = heap data'"
    by simp
qed (simp_all add: read_entity_def free_root_def BUFFER_SIZE_def split: list.splits)

theorem read_loop_receive_failures_witness:
  "read_entity small_parser
     [Recv_error GNUTLS_E_INTERRUPTED, Recv_bytes ''<a><b>'', Recv_error GNUTLS_E_REHANDSHAKE,
      Recv_bytes '''', Recv_bytes ''</b></a>'']
   = Some (Inr \<lparr>result_code = - 3, result_entity = None, result_text = None,
                 result_freed = Some 0, result_end_parsed = True,
                 result_heap =
                   [\<lparr>struct_name = ''a'', struct_text = '''', struct_entities = [1],
                       struct_attributes = None\<rparr>,
                    \<lparr>struct_name = ''b'', struct_text = '''', struct_entities = [],
                       struct_attributes = None\<rparr>],
                 result_unread = [Recv_bytes ''</b></a>'']\<rparr>)
   \<and> - 10 \<noteq> GNUTLS_E_INTERRUPTED \<and> - 10 \<noteq> GNUTLS_E_REHANDSHAKE
   \<and> read_entity_and_text small_parser True
     [Recv_bytes ''<a><b>'', Recv_error (- 10), Recv_bytes ''</b></a>'']
   = Some (Inr \<lparr>result_code = - 1, result_entity = None, result_text = None,
                 result_freed = Some 0, result_end_parsed = False,
                 result_heap =
                   [\<lparr>struct_name = ''a'', struct_text = '''', struct_entities = [1],
                       struct_attributes = None\<rparr>,
                    \<lparr>struct_name = ''b'', struct_text = '''', struct_entities = [],
                       struct_attributes = None\<rparr>],
                 result_unread = [Recv_bytes ''</b></a>'']\<rparr>)"
  using read_loop_receive_failures
    [where parser = small_parser and xml_context = "(2, Content [])"
       and data = "\<lparr>heap =
                   [\<lparr>struct_name = ''a'', struct_text = [], struct_entities = [1],
                       struct_attributes = None\<rparr>,
                    \<lparr>struct_name = ''b'', struct_text = [], struct_entities = [],
                       struct_attributes = None\<rparr>],
                  first = [0], current = [1, 0], done_flag = False\<rparr>"
       and count = "- 10" and want_text = True and string = None
       and transport = "[Recv_bytes ''</b></a>'']"]
  by (simp add: read_entity_def read_entity_and_text_def small_parser_def BUFFER_SIZE_def
      flush_text_def handle_start_element_def heap_add_entity_def heap_make_entity_def
      heap_add_attributes_def GNUTLS_E_INTERRUPTED_def GNUTLS_E_REHANDSHAKE_def free_root_def)

subsection \<open>Reading in chunks\<close>

lemma building_start:
  assumes "building data tags"
  shows "\<exists>data'. handle_start_element data n ns vs = Inr data' \<and> building data' (n # tags)"
proof (cases tags)
  case Nil
  with assms show ?thesis
    by (auto simp: building_def handle_start_element_def heap_add_entity_def
        heap_make_entity_def heap_add_attributes_def)
next
  case (Cons tag outer)
  with assms obtain root where root: "first data = [root]" "last (current data) = root"
      "root < length (heap data)" "struct_name (heap data ! root) = last tags"
    and len: "length (current data) = length tags" and nd: "\<not> done_flag data"
    by (auto simp: building_def split: list.splits)
  from len Cons obtain cur stack where cur: "current data = cur # stack"
    by (cases "current data") auto
  show ?thesis
    using root len nd cur Cons
    by (auto simp: building_def handle_start_element_def heap_add_entity_def
        heap_make_entity_def heap_add_attributes_def nth_append nth_list_update)
qed

lemma name_after_update:
  "root < length h \<Longrightarrow> struct_name x = struct_name (h ! cur) \<Longrightarrow>
     struct_name (h[cur := x] ! root) = struct_name (h ! root)"
  by (cases "cur = root") auto

lemma building_text:
  assumes "building data tags" "tags \<noteq> []"
  shows "\<exists>data'. handle_text data t = Inr data' \<and> building data' tags"
proof -
  from assms obtain tag outer where tags: "tags = tag # outer" by (cases tags) auto
  with assms obtain root where root: "first data = [root]" "last (current data) = root"
      "root < length (heap data)" "struct_name (heap data ! root) = last tags"
    and len: "length (current data) = length tags" and nd: "\<not> done_flag data"
    by (auto simp: building_def split: list.splits)
  from len tags obtain cur stack where cur: "current data = cur # stack"
    by (cases "current data") auto
  show ?thesis
    using root len nd cur tags
    by (auto simp: building_def handle_text_def name_after_update)
qed

lemma building_end:
  assumes "building data (tag # outer)" "outer \<noteq> []"
  shows "\<exists>data'. handle_end_element data tag = Inr data' \<and> building data' outer"
proof -
  from assms obtain root where root: "first data = [root]" "last (current data) = root"
      "root < length (heap data)" "struct_name (heap data ! root) = last (tag # outer)"
    and len: "length (current data) = length (tag # outer)" and nd: "\<not> done_flag data"
    by (auto simp: building_def split: list.splits)
  from len assms(2) obtain cur c2 stack where cur: "current data = cur # c2 # stack"
    by (cases "current data"; cases "tl (current data)"; cases outer) auto
  from assms(2) obtain t2 o2 where outer: "outer = t2 # o2" by (cases outer) auto
  show ?thesis
    using root len nd cur outer
    by (auto simp: building_def handle_end_element_def)
qed

lemma closing_end:
  assumes "building data [tag]"
  shows "handle_end_element data tag = Inr (data\<lparr>done_flag := True, current := tl (current data)\<rparr>)"
    and "first data \<noteq> []"
proof -
  from assms obtain root where root: "first data = [root]" "last (current data) = root"
      "root < length (heap data)" "struct_name (heap data ! root) = tag"
    and len: "length (current data) = 1"
    by (auto simp: building_def split: list.splits)
  from len obtain cur where cur: "current data = [cur]"
    by (cases "current data") auto
  show "handle_end_element data tag = Inr (data\<lparr>done_flag := True, current := tl (current data)\<rparr>)"
    using root cur by (simp add: handle_end_element_def)
  show "first data \<noteq> []" using root by simp
qed

lemma prefix_run:
  "well_nested tags (A @ B) \<Longrightarrow> B \<noteq> [] \<Longrightarrow> building data tags \<Longrightarrow>
     \<exists>data' tags'. callbacks data A = Inr data' \<and> building data' tags' \<and> well_nested tags' B"
proof (induction A arbitrary: data tags)
  case Nil
  then show ?case by auto
next
  case (Cons e A)
  show ?case
  proof (cases e)
    case (Start_element n ns vs)
    from building_start [OF Cons.prems(3), of n ns vs] obtain data1
      where d1: "handle_start_element data n ns vs = Inr data1" "building data1 (n # tags)"
      by blast
    from Cons.prems(1) Start_element have "well_nested (n # tags) (A @ B)" by simp
    from Cons.IH [OF this Cons.prems(2) d1(2)] d1(1) Start_element show ?thesis by simp
  next
    case (End_element n)
    with Cons.prems(1) obtain outer where tags: "tags = n # outer"
      by (cases tags) auto
    with Cons.prems(1,2) End_element have outer: "outer \<noteq> []" and wn: "well_nested outer (A @ B)"
      by (auto split: if_splits)
    from building_end [OF Cons.prems(3) [unfolded tags] outer] obtain data1
      where d1: "handle_end_element data n = Inr data1" "building data1 outer"
      by blast
    from Cons.IH [OF wn Cons.prems(2) d1(2)] d1(1) End_element show ?thesis by simp
  next
    case (Text t)
    with Cons.prems(1) have tags: "tags \<noteq> []" and wn: "well_nested tags (A @ B)" by auto
    from building_text [OF Cons.prems(3) tags, of t] obtain data1
      where d1: "handle_text data t = Inr data1" "building data1 tags"
      by blast
    from Cons.IH [OF wn Cons.prems(2) d1(2)] d1(1) Text show ?thesis by simp
  qed
qed

lemma complete_run:
  "well_nested tags es \<Longrightarrow> building data tags \<Longrightarrow>
     \<exists>data'. callbacks data es = Inr data' \<and> done_flag data' \<and> first data' \<noteq> []"
proof (induction es arbitrary: data tags)
  case Nil
  then show ?case by simp
next
  case (Cons e es)
  show ?case
  proof (cases e)
    case (Start_element n ns vs)
    from building_start [OF Cons.prems(2), of n ns vs] obtain data1
      where d1: "handle_start_element data n ns vs = Inr data1" "building data1 (n # tags)"
      by blast
    from Cons.prems(1) Start_element have "well_nested (n # tags) es" by simp
    from Cons.IH [OF this d1(2)] d1(1) Start_element show ?thesis by simp
  next
    case (End_element n)
    with Cons.prems(1) obtain outer where tags: "tags = n # outer"
      by (cases tags) auto
    show ?thesis
    proof (cases "outer = []")
      case True
      with Cons.prems(1) End_element tags have es: "es = []" by simp
      from closing_end [OF Cons.prems(2) [unfolded tags True]] End_element es
      show ?thesis by simp
    next
      case False
      with Cons.prems(1) End_element tags have wn: "well_nested outer es" by simp
      from building_end [OF Cons.prems(2) [unfolded tags] False] obtain data1
        where d1: "handle_end_element data n = Inr data1" "building data1 outer"
        by blast
      from Cons.IH [OF wn d1(2)] d1(1) End_element show ?thesis by simp
    qed
  next
    case (Text t)
    with Cons.prems(1) have tags: "tags \<noteq> []" and wn: "well_nested tags es" by auto
    from building_text [OF Cons.prems(2) tags, of t] obtain data1
      where d1: "handle_text data t = Inr data1" "building data1 tags"
      by blast
    from Cons.IH [OF wn d1(2)] d1(1) Text show ?thesis by simp
  qed
qed


lemma handle_text_twice:
  assumes "handle_text data a = Inr data1"
  shows "handle_text data1 b = handle_text data (a @ b)"
proof -
  from assms obtain cur stack where cur: "current data = cur # stack"
    by (cases "current data") (auto simp: handle_text_def)
  show ?thesis
  proof (cases "cur < length (heap data)")
    case True
    with assms cur show ?thesis by (auto simp: handle_text_def)
  next
    case False
    then have "(heap data)[cur := x] = heap data" for x
      by (simp add: list_update_beyond)
    with assms cur show ?thesis by (auto simp: handle_text_def)
  qed
qed

lemma handle_text_empty:
  "current data \<noteq> [] \<Longrightarrow> handle_text data [] = Inr data"
  by (cases "current data") (auto simp: handle_text_def)

lemma building_current:
  "building data tags \<Longrightarrow> tags \<noteq> [] \<Longrightarrow> current data \<noteq> []"
  by (auto simp: building_def)

lemma join_text_run:
  "well_nested tags es \<Longrightarrow> building data tags \<Longrightarrow>
     callbacks data (join_text es) = callbacks data es"
proof (induction es arbitrary: data tags)
  case Nil
  then show ?case by simp
next
  case (Cons e es)
  show ?case
  proof (cases e)
    case (Start_element n ns vs)
    from building_start [OF Cons.prems(2), of n ns vs] obtain data1
      where d1: "handle_start_element data n ns vs = Inr data1" "building data1 (n # tags)"
      by blast
    from Cons.prems(1) Start_element have "well_nested (n # tags) es" by simp
    from Cons.IH [OF this d1(2)] d1(1) Start_element show ?thesis by simp
  next
    case (End_element n)
    with Cons.prems(1) obtain outer where tags: "tags = n # outer"
      by (cases tags) auto
    show ?thesis
    proof (cases "outer = []")
      case True
      with Cons.prems(1) End_element tags have "es = []" by simp
      with End_element show ?thesis by simp
    next
      case False
      with Cons.prems(1) End_element tags have wn: "well_nested outer es" by simp
      from building_end [OF Cons.prems(2) [unfolded tags] False] obtain data1
        where d1: "handle_end_element data n = Inr data1" "building data1 outer"
        by blast
      from Cons.IH [OF wn d1(2)] d1(1) End_element show ?thesis by simp
    qed
  next
    case (Text t)
    with Cons.prems(1) have tags: "tags \<noteq> []" and wn: "well_nested tags es" by auto
    from building_text [OF Cons.prems(2) tags, of t] obtain data1
      where d1: "handle_text data t = Inr data1" "building data1 tags"
      by blast
    have IH: "callbacks data1 (join_text es) = callbacks data1 es"
      by (rule Cons.IH [OF wn d1(2)])
    have rhs: "callbacks data (e # es) = callbacks data1 es"
      using Text d1(1) by simp
    show ?thesis
    proof (cases "\<exists>b rest. join_text es = Text b # rest")
      case True
      then obtain b rest where J: "join_text es = Text b # rest" by blast
      have "callbacks data (join_text (e # es)) = callbacks data (Text (t @ b) # rest)"
        using Text J by simp
      also have "\<dots> = callbacks data1 (Text b # rest)"
        using handle_text_twice [OF d1(1), of b] by simp
      also have "\<dots> = callbacks data1 es" using J IH by simp
      finally show ?thesis using rhs by simp
    next
      case False
      then have J: "join_text (e # es) = (if t = [] then join_text es else Text t # join_text es)"
        using Text by (auto split: list.splits markup_event.splits)
      show ?thesis
      proof (cases "t = []")
        case True
        from handle_text_empty [OF building_current [OF Cons.prems(2) tags]] d1(1) True
        have "data1 = data" by simp
        with J True IH rhs show ?thesis by simp
      next
        case False
        with J d1(1) IH rhs show ?thesis by simp
      qed
    qed
  qed
qed

lemma building_initial:
  "building \<lparr>heap = [], first = [], current = [], done_flag = False\<rparr> []"
  by (simp add: building_def)

lemma feed_Cons:
  "feed parser c (chunk # chunks) = Some (ess, c_end) \<Longrightarrow>
     \<exists>events c' ess'. parse parser c chunk = (events, c', False)
        \<and> feed parser c' chunks = Some (ess', c_end) \<and> ess = events # ess'"
  by (auto split: prod.splits if_splits option.splits)

lemma feed_length: "feed parser c chunks = Some (ess, c_end) \<Longrightarrow> length ess = length chunks"
  by (induction chunks arbitrary: c ess) (auto split: prod.splits if_splits option.splits)

lemma read_loop_chunks:
  assumes "feed parser c chunks = Some (ess, c_end)"
    and "\<forall>chunk \<in> set chunks. chunk \<noteq> [] \<and> length chunk \<le> BUFFER_SIZE"
    and "ess \<noteq> []" and "last ess \<noteq> []"
    and "well_nested tags (concat ess)" and "building data tags"
    and "\<not> end_parse parser c_end"
  shows "\<exists>data' root stack. callbacks data (concat ess) = Inr data' \<and> first data' = root # stack
     \<and> read_loop parser c data string (map Recv_bytes chunks @ later)
       = Some (Inr \<lparr>result_code = 0, result_entity = Some root,
                     result_text = map_option (\<lambda>s. s @ concat chunks) string,
                     result_freed = None, result_end_parsed = True,
                     result_heap = heap data', result_unread = later\<rparr>)"
  using assms
proof (induction chunks arbitrary: c ess data tags string)
  case Nil
  then show ?case by simp
next
  case (Cons chunk chunks)
  from feed_Cons [OF Cons.prems(1)] obtain events c' ess'
    where p: "parse parser c chunk = (events, c', False)"
      and f: "feed parser c' chunks = Some (ess', c_end)" and ess: "ess = events # ess'"
    by blast
  from Cons.prems(2) have chunk: "chunk \<noteq> []" "length chunk \<le> BUFFER_SIZE"
    and rest: "\<forall>chunk \<in> set chunks. chunk \<noteq> [] \<and> length chunk \<le> BUFFER_SIZE"
    by auto
  show ?case
  proof (cases "chunks = []")
    case True
    with f have ess': "ess' = []" by simp
    with ess Cons.prems(5) have wn: "well_nested tags events" by simp
    from complete_run [OF wn Cons.prems(6)] obtain data'
      where d: "callbacks data events = Inr data'" "done_flag data'" "first data' \<noteq> []"
      by blast
    from d(3) obtain root stack where root: "first data' = root # stack"
      by (cases "first data'") auto
    from True f have "c' = c_end" by simp
    with Cons.prems(7) have ep: "\<not> end_parse parser c'" by simp
    show ?thesis
      using True ess ess' p d root chunk ep
      by (intro exI [of _ data'] exI [of _ root] exI [of _ stack]) (simp add: option.map_comp comp_def)
  next
    case False
    from feed_length [OF f] False have ne: "ess' \<noteq> []" by auto
    with ess Cons.prems(4) have last: "last ess' \<noteq> []" by simp
    then have B: "concat ess' \<noteq> []" using ne
      by (metis concat_eq_Nil_conv last_in_set)
    from ess Cons.prems(5) have wn: "well_nested tags (events @ concat ess')" by simp
    from prefix_run [OF wn B Cons.prems(6)] obtain data1 tags1
      where d1: "callbacks data events = Inr data1" "building data1 tags1"
        "well_nested tags1 (concat ess')"
      by blast
    from d1(2) have nd: "\<not> done_flag data1" by (simp add: building_def)
    from Cons.IH [OF f rest ne last d1(3) d1(2) Cons.prems(7),
        of "map_option (\<lambda>s. s @ chunk) string"]
    obtain data' root stack
      where d: "callbacks data1 (concat ess') = Inr data'" "first data' = root # stack"
        and loop: "read_loop parser c' data1 (map_option (\<lambda>s. s @ chunk) string)
            (map Recv_bytes chunks @ later)
          = Some (Inr \<lparr>result_code = 0, result_entity = Some root,
                     result_text = map_option (\<lambda>s. s @ concat chunks)
                        (map_option (\<lambda>s. s @ chunk) string),
                     result_freed = None, result_end_parsed = True,
                     result_heap = heap data', result_unread = later\<rparr>)"
      by blast
    have run: "callbacks data (concat ess) = Inr data'"
      using ess d1(1) d(1) by (simp add: callbacks_append)
    show ?thesis
      using run d(2) loop p d1(1) nd chunk
      by (intro exI [of _ data'] exI [of _ root] exI [of _ stack])
         (simp add: option.map_comp comp_def)
  qed
qed

text \<open>
  C4. Take a document and any way of cutting its bytes into chunks, each of them not
  empty and no longer than the buffer: \<open>chunks\<close> up to the chunk in which the
  outermost element closes, and \<open>trailing\<close> for whatever chunks follow it. The
  tokenizer is the parameter \<open>parser\<close>; of it the theorem asks what the spec leaves
  to it: that it reports no error for the chunks and for the document taken as one
  chunk, neither while parsing nor at \<open>end_parse\<close>, that in both cases its events
  are those of one complete element (the document is valid), and that the two event
  lists agree but for the way runs of text are split. Then reading the chunks one
  receive at a time and reading the document in one receive both return 0 with the
  same root and the same heap of entities, that is, the same tree. (The chunks in
  \<open>trailing\<close> are not read, and the collected text ends where the reading ends.)
  The witness is the spec's example, cut into single bytes, with the small tokenizer,
  which splits the texts \<open>hi\<close> and \<open>there\<close> into single letters.
\<close>

theorem chunk_boundary_independence:
  assumes "feed parser (new_context parser) chunks = Some (events, last_context)"
    and "feed parser (new_context parser) [concat (chunks @ trailing)] = Some ([whole], whole_context)"
    and "chunks \<noteq> []"
    and "\<forall>chunk \<in> set chunks. chunk \<noteq> [] \<and> length chunk \<le> BUFFER_SIZE"
    and "length (concat (chunks @ trailing)) \<le> BUFFER_SIZE"
    and "last events \<noteq> []"
    and "well_nested [] (concat events)" and "well_nested [] whole"
    and "join_text (concat events) = join_text whole"
    and "\<not> end_parse parser last_context" and "\<not> end_parse parser whole_context"
  shows "\<exists>root tree.
     read_entity_and_text parser want_text (map Recv_bytes (chunks @ trailing) @ later)
       = Some (Inr \<lparr>result_code = 0, result_entity = Some root,
                     result_text = (if want_text then Some (concat chunks) else None),
                     result_freed = None, result_end_parsed = True,
                     result_heap = tree, result_unread = map Recv_bytes trailing @ later\<rparr>)
     \<and> read_entity_and_text parser want_text (Recv_bytes (concat (chunks @ trailing)) # later)
       = Some (Inr \<lparr>result_code = 0, result_entity = Some root,
                     result_text = (if want_text then Some (concat (chunks @ trailing)) else None),
                     result_freed = None, result_end_parsed = True,
                     result_heap = tree, result_unread = later\<rparr>)"
proof -
  let ?init = "\<lparr>heap = [], first = [], current = [], done_flag = False\<rparr>"
  let ?string = "if want_text then Some [] else None"
  let ?D = "concat (chunks @ trailing)"
  from feed_length [OF assms(1)] assms(3) have events: "events \<noteq> []" by auto
  from read_loop_chunks [OF assms(1) assms(4) events assms(6) assms(7) building_initial assms(10),
      of ?string "map Recv_bytes trailing @ later"]
  obtain data' root stack
    where run: "callbacks ?init (concat events) = Inr data'" and root: "first data' = root # stack"
      and loop: "read_loop parser (new_context parser) ?init ?string
          (map Recv_bytes chunks @ map Recv_bytes trailing @ later)
        = Some (Inr \<lparr>result_code = 0, result_entity = Some root,
                     result_text = map_option (\<lambda>s. s @ concat chunks) ?string,
                     result_freed = None, result_end_parsed = True,
                     result_heap = heap data', result_unread = map Recv_bytes trailing @ later\<rparr>)"
    by blast
  from assms(3,4) have D: "?D \<noteq> []" by (cases chunks) auto
  have sizes: "\<forall>chunk \<in> set [?D]. chunk \<noteq> [] \<and> length chunk \<le> BUFFER_SIZE"
    using D assms(5) by simp
  have wn: "well_nested [] (concat [whole])" using assms(8) by simp
  have lw: "last [whole] \<noteq> []" using assms(8) by auto
  from read_loop_chunks [OF assms(2) sizes _ lw wn building_initial assms(11), of ?string later]
  obtain data0 root0 stack0
    where run0: "callbacks ?init (concat [whole]) = Inr data0"
      and root0: "first data0 = root0 # stack0"
      and loop0: "read_loop parser (new_context parser) ?init ?string
          (map Recv_bytes [?D] @ later)
        = Some (Inr \<lparr>result_code = 0, result_entity = Some root0,
                     result_text = map_option (\<lambda>s. s @ concat [?D]) ?string,
                     result_freed = None, result_end_parsed = True,
                     result_heap = heap data0, result_unread = later\<rparr>)"
    by blast
  have "callbacks ?init (concat events) = callbacks ?init (join_text (concat events))"
    by (rule join_text_run [OF assms(7) building_initial, symmetric])
  also have "\<dots> = callbacks ?init (join_text whole)" by (simp add: assms(9))
  also have "\<dots> = callbacks ?init whole" by (rule join_text_run [OF assms(8) building_initial])
  finally have "data' = data0" using run run0 by simp
  with root root0 have same: "root0 = root" "heap data0 = heap data'" by simp_all
  show ?thesis
  proof (intro exI [of _ root] exI [of _ "heap data'"] conjI)
    show "read_entity_and_text parser want_text (map Recv_bytes (chunks @ trailing) @ later)
       = Some (Inr \<lparr>result_code = 0, result_entity = Some root,
                     result_text = (if want_text then Some (concat chunks) else None),
                     result_freed = None, result_end_parsed = True,
                     result_heap = heap data', result_unread = map Recv_bytes trailing @ later\<rparr>)"
      using loop by (simp add: read_entity_and_text_def)
    show "read_entity_and_text parser want_text (Recv_bytes (concat (chunks @ trailing)) # later)
       = Some (Inr \<lparr>result_code = 0, result_entity = Some root,
                     result_text = (if want_text then Some (concat (chunks @ trailing)) else None),
                     result_freed = None, result_end_parsed = True,
                     result_heap = heap data', result_unread = later\<rparr>)"
      using loop0 same by (simp add: read_entity_and_text_def)
  qed
qed

theorem chunk_boundary_independence_witness:
  "concat example_chunks = example_document
   \<and> feed small_parser (new_context small_parser) example_chunks
       = Some (example_chunk_events, (0, Content []))
   \<and> feed small_parser (new_context small_parser) [example_document]
       = Some ([example_events], (0, Content []))
   \<and> well_nested [] (concat example_chunk_events) \<and> well_nested [] example_events
   \<and> join_text (concat example_chunk_events) = join_text example_events
   \<and> (\<exists>root.
        read_entity_and_text small_parser True (map Recv_bytes example_chunks)
          = Some (Inr \<lparr>result_code = 0, result_entity = Some root,
               result_text = Some example_document,
               result_freed = None, result_end_parsed = True,
               result_heap =
                 [\<lparr>struct_name = ''a'', struct_text = '''', struct_entities = [1, 2],
             struct_attributes = Some [(''x'', ''1'')]\<rparr>,
          \<lparr>struct_name = ''b'', struct_text = ''hi'', struct_entities = [],
             struct_attributes = None\<rparr>,
          \<lparr>struct_name = ''c'', struct_text = ''there'', struct_entities = [],
             struct_attributes = None\<rparr>],
               result_unread = []\<rparr>)
        \<and> read_entity_and_text small_parser True [Recv_bytes example_document]
          = Some (Inr \<lparr>result_code = 0, result_entity = Some root,
               result_text = Some example_document,
               result_freed = None, result_end_parsed = True,
               result_heap =
                 [\<lparr>struct_name = ''a'', struct_text = '''', struct_entities = [1, 2],
             struct_attributes = Some [(''x'', ''1'')]\<rparr>,
          \<lparr>struct_name = ''b'', struct_text = ''hi'', struct_entities = [],
             struct_attributes = None\<rparr>,
          \<lparr>struct_name = ''c'', struct_text = ''there'', struct_entities = [],
             struct_attributes = None\<rparr>],
               result_unread = []\<rparr>))"
proof -
  have cat: "concat example_chunks = example_document"
    by (simp add: example_chunks_def example_document_def)
  have parts: "feed small_parser (new_context small_parser) example_chunks
       = Some (example_chunk_events, (0, Content []))"
    by (simp add: example_chunks_def example_chunk_events_def small_parser_def flush_text_def)
  have whole: "feed small_parser (new_context small_parser) [concat (example_chunks @ [])]
       = Some ([example_events], (0, Content []))"
    by (simp add: cat) (simp add: example_document_def example_events_def small_parser_def
        flush_text_def)
  have ne: "example_chunks \<noteq> []" by (simp add: example_chunks_def)
  have sizes: "\<forall>chunk \<in> set example_chunks. chunk \<noteq> [] \<and> length chunk \<le> BUFFER_SIZE"
    by (simp add: example_chunks_def BUFFER_SIZE_def)
  have size: "length (concat (example_chunks @ [])) \<le> BUFFER_SIZE"
    by (simp add: cat) (simp add: example_document_def BUFFER_SIZE_def)
  have last: "last example_chunk_events \<noteq> []" by (simp add: example_chunk_events_def)
  have wn1: "well_nested [] (concat example_chunk_events)"
    by (simp add: example_chunk_events_def)
  have wn2: "well_nested [] example_events" by (simp add: example_events_def)
  have same: "join_text (concat example_chunk_events) = join_text example_events"
    by (simp add: example_chunk_events_def example_events_def)
  have ep: "\<not> end_parse small_parser (0, Content [])" by (simp add: small_parser_def)
  have one: "read_entity_and_text small_parser True [Recv_bytes example_document]
          = Some (Inr \<lparr>result_code = 0, result_entity = Some 0,
               result_text = Some example_document,
               result_freed = None, result_end_parsed = True,
               result_heap =
                 [\<lparr>struct_name = ''a'', struct_text = '''', struct_entities = [1, 2],
             struct_attributes = Some [(''x'', ''1'')]\<rparr>,
          \<lparr>struct_name = ''b'', struct_text = ''hi'', struct_entities = [],
             struct_attributes = None\<rparr>,
          \<lparr>struct_name = ''c'', struct_text = ''there'', struct_entities = [],
             struct_attributes = None\<rparr>],
               result_unread = []\<rparr>)"
    by (simp add: read_entity_and_text_def example_document_def small_parser_def
        BUFFER_SIZE_def flush_text_def handle_start_element_def handle_end_element_def
        handle_text_def heap_add_entity_def heap_make_entity_def heap_add_attributes_def
        g_hash_table_insert_def)
  from chunk_boundary_independence
    [OF parts whole ne sizes size last wn1 wn2 same ep ep, of True "[]"]
  obtain root tree where
    "read_entity_and_text small_parser True (map Recv_bytes example_chunks)
       = Some (Inr \<lparr>result_code = 0, result_entity = Some root,
                     result_text = Some (concat example_chunks),
                     result_freed = None, result_end_parsed = True,
                     result_heap = tree, result_unread = []\<rparr>)"
    and "read_entity_and_text small_parser True [Recv_bytes example_document]
       = Some (Inr \<lparr>result_code = 0, result_entity = Some root,
                     result_text = Some (concat example_chunks),
                     result_freed = None, result_end_parsed = True,
                     result_heap = tree, result_unread = []\<rparr>)"
    by (auto simp: cat)
  with one cat parts whole wn1 wn2 same show ?thesis by simp
qed

end
